theory Spec2Isabelle
  imports Complex_Main
begin

section \<open>Python values and exceptions\<close>

text \<open>
  The script \<^verbatim>\<open>src/yolo_train.py\<close> is a Python training driver. Every exception the
  modelled code can raise is a value of \<open>error\<close>; a function that may raise returns
  \<open>error + 'a\<close>, with \<open>Inl\<close> for the exception.
\<close>

datatype error =
    NameError
  | AttributeError
  | KeyError
  | TypeError
  | IndexError
  | ZeroDivisionError
  | FileNotFoundError
  | JSONDecodeError
  | ImreadError
  | OverflowError

text \<open>
  Sequencing: the first exception raised ends the computation, as in Python.
\<close>

definition bind_err :: "error + 'a \<Rightarrow> ('a \<Rightarrow> error + 'b) \<Rightarrow> error + 'b" where
  "bind_err m f = (case m of Inl e \<Rightarrow> Inl e | Inr x \<Rightarrow> f x)"

text \<open>
  A Python float by its value: a finite float is the rational it stands for, and there
  are the two infinities and not-a-number. (The two zeros compare equal and are one
  value here.)
\<close>

datatype pyfloat = NegInf | Fin rat | PosInf | NaN

text \<open>
  What \<^verbatim>\<open>json.loads\<close> returns: \<^verbatim>\<open>None\<close>, a \<^verbatim>\<open>bool\<close>, an \<^verbatim>\<open>int\<close> of any size, a \<^verbatim>\<open>float\<close>
  (a number literal with a fraction or an exponent), a \<^verbatim>\<open>str\<close>, a \<^verbatim>\<open>list\<close> or a \<^verbatim>\<open>dict\<close>
  with string keys (an association list in insertion order, read by its first entry
  for a key).
\<close>

datatype json =
    JNull
  | JBool bool
  | JInt int
  | JFloat pyfloat
  | JStr string
  | JArr "json list"
  | JObj "(string \<times> json) list"

text \<open>\<^verbatim>\<open>v[key]\<close> with a string key: only a dict accepts it.\<close>

fun py_getitem :: "json \<Rightarrow> string \<Rightarrow> error + json" where
  "py_getitem (JObj kvs) k = (case map_of kvs k of None \<Rightarrow> Inl KeyError | Some v \<Rightarrow> Inr v)"
| "py_getitem _ k = Inl TypeError"

text \<open>\<^verbatim>\<open>len(v)\<close>: defined on strings, lists and dicts.\<close>

fun py_len :: "json \<Rightarrow> error + nat" where
  "py_len (JStr s) = Inr (length s)"
| "py_len (JArr xs) = Inr (length xs)"
| "py_len (JObj kvs) = Inr (length kvs)"
| "py_len _ = Inl TypeError"

text \<open>
  \<^verbatim>\<open>for x in v\<close>: a list yields its elements, a string its characters, a dict its keys.
\<close>

fun py_iter :: "json \<Rightarrow> error + json list" where
  "py_iter (JArr xs) = Inr xs"
| "py_iter (JStr s) = Inr (map (\<lambda>c. JStr [c]) s)"
| "py_iter (JObj kvs) = Inr (map (\<lambda>kv. JStr (fst kv)) kvs)"
| "py_iter _ = Inl TypeError"

text \<open>
  The float nearest to an integer, ties to the even one: what the conversion of an
  \<^verbatim>\<open>int\<close> to a \<^verbatim>\<open>float\<close> gives, with its 53 significant bits. \<open>bit_length\<close> is Python's
  \<^verbatim>\<open>int.bit_length\<close>. The conversion raises \<^verbatim>\<open>OverflowError\<close> when the result would reach
  \<open>2 ^ 1024\<close>.
\<close>

fun bit_length :: "nat \<Rightarrow> nat" where
  "bit_length n = (if n = 0 then 0 else 1 + bit_length (n div 2))"

definition round_to_double :: "int \<Rightarrow> int" where
  "round_to_double i =
     (let m = nat \<bar>i\<bar>; k = bit_length m in
      if k \<le> 53 then i
      else
        let e = k - 53; q = m div 2 ^ e; r = m mod 2 ^ e; half = 2 ^ (e - 1);
            q' = (if half < r \<or> (r = half \<and> odd q) then q + 1 else q)
        in sgn i * int (q' * 2 ^ e))"

definition float_of_int :: "int \<Rightarrow> error + pyfloat" where
  "float_of_int i =
     (if \<bar>round_to_double i\<bar> < 2 ^ 1024 then Inr (Fin (of_int (round_to_double i)))
      else Inl OverflowError)"

text \<open>
  \<^verbatim>\<open>a + b\<close>: integer addition (a \<^verbatim>\<open>bool\<close> is the integer 0 or 1), float addition when an
  operand is a float (the other, if an integer, converted first), concatenation of two
  strings or of two lists, \<^verbatim>\<open>TypeError\<close> otherwise. The addition of two floats, with its
  rounding, is the parameter \<open>fadd\<close>.
\<close>

fun py_num :: "json \<Rightarrow> int option" where
  "py_num (JInt i) = Some i"
| "py_num (JBool b) = Some (if b then 1 else 0)"
| "py_num _ = None"

fun py_add :: "(pyfloat \<Rightarrow> pyfloat \<Rightarrow> pyfloat) \<Rightarrow> json \<Rightarrow> json \<Rightarrow> error + json" where
  "py_add fadd (JStr a) (JStr b) = Inr (JStr (a @ b))"
| "py_add fadd (JArr a) (JArr b) = Inr (JArr (a @ b))"
| "py_add fadd (JFloat x) (JFloat y) = Inr (JFloat (fadd x y))"
| "py_add fadd (JFloat x) b =
     (case py_num b of
        Some j \<Rightarrow> bind_err (float_of_int j) (\<lambda>y. Inr (JFloat (fadd x y)))
      | None \<Rightarrow> Inl TypeError)"
| "py_add fadd a (JFloat y) =
     (case py_num a of
        Some i \<Rightarrow> bind_err (float_of_int i) (\<lambda>x. Inr (JFloat (fadd x y)))
      | None \<Rightarrow> Inl TypeError)"
| "py_add fadd a b =
     (case (py_num a, py_num b) of
        (Some i, Some j) \<Rightarrow> Inr (JInt (i + j))
      | _ \<Rightarrow> Inl TypeError)"

text \<open>
  \<^verbatim>\<open>xs[idx]\<close> on a list: a negative index counts from the end, an index out of range
  raises \<^verbatim>\<open>IndexError\<close>.
\<close>

definition py_index :: "'a list \<Rightarrow> int \<Rightarrow> error + 'a" where
  "py_index xs idx =
     (let n = int (length xs); j = (if idx < 0 then idx + n else idx)
      in if 0 \<le> j \<and> j < n then Inr (xs ! nat j) else Inl IndexError)"

section \<open>Strings and paths\<close>

text \<open>\<^verbatim>\<open>s.split(c)\<close> for a one-character separator: the pieces between the separators.\<close>

fun split_on :: "char \<Rightarrow> string \<Rightarrow> string list" where
  "split_on c [] = [[]]"
| "split_on c (x # xs) =
     (if x = c then [] # split_on c xs
      else (case split_on c xs of
              p # ps \<Rightarrow> (x # p) # ps
            | [] \<Rightarrow> [[x]]))"

text \<open>
  \<^verbatim>\<open>s.partition('/')[2]\<close>: what follows the first slash, the empty string when there is
  none.
\<close>

definition after_first_slash :: "string \<Rightarrow> string" where
  "after_first_slash s =
     (case dropWhile (\<lambda>c. c \<noteq> CHR ''/'') s of [] \<Rightarrow> [] | _ # r \<Rightarrow> r)"

text \<open>
  \<^verbatim>\<open>os.path.join(a, *p)\<close> of the POSIX path module: a component that starts with a slash
  replaces what came before; otherwise it is appended, after a slash unless the path is
  empty or already ends with one.
\<close>

definition join_step :: "string \<Rightarrow> string \<Rightarrow> string" where
  "join_step path b =
     (if take 1 b = ''/'' then b
      else if path = [] \<or> last path = CHR ''/'' then path @ b
      else path @ ''/'' @ b)"

definition path_join :: "string \<Rightarrow> string list \<Rightarrow> string" where
  "path_join a p = foldl join_step a p"

section \<open>The manifest dataset\<close>

text \<open>
  \<^verbatim>\<open>class GroundTruthDataset\<close>. The constructor reads the file
  \<^verbatim>\<open>os.path.join(data_path, '{}.manifest'.format(channel))\<close> line by line, decodes each
  line without its last character, and keeps the entries whose
  \<^verbatim>\<open>info[field_name]['annotations']\<close> has a nonzero length. The file system is a map from
  a path to the lines \<^verbatim>\<open>readlines\<close> returns; \<^verbatim>\<open>json.loads\<close> is the library's decoder, a
  parameter.
\<close>

record GroundTruthDataset =
  data_path :: string
  image_path :: string
  field_name :: string
  image_info :: "json list"

definition annotations_of :: "string \<Rightarrow> json \<Rightarrow> error + json" where
  "annotations_of fname info =
     bind_err (py_getitem info fname) (\<lambda>lab. py_getitem lab ''annotations'')"

definition annotations_len :: "string \<Rightarrow> json \<Rightarrow> error + nat" where
  "annotations_len fname info = bind_err (annotations_of fname info) py_len"

fun load_lines ::
  "(string \<Rightarrow> error + json) \<Rightarrow> string \<Rightarrow> string list \<Rightarrow> json list \<Rightarrow> error + json list"
where
  "load_lines json_loads fname [] acc = Inr acc"
| "load_lines json_loads fname (line # rest) acc =
     bind_err (json_loads (butlast line)) (\<lambda>info.
     bind_err (annotations_len fname info) (\<lambda>n.
       if n \<noteq> 0 then load_lines json_loads fname rest (acc @ [info])
       else load_lines json_loads fname rest acc))"

definition GroundTruthDataset_init ::
  "(string \<rightharpoonup> string list) \<Rightarrow> (string \<Rightarrow> error + json) \<Rightarrow>
   string \<Rightarrow> string \<Rightarrow> string \<Rightarrow> string \<Rightarrow> error + GroundTruthDataset"
where
  "GroundTruthDataset_init fs json_loads dpath channel ipath fname =
     (case fs (path_join dpath [channel @ ''.manifest'']) of
        None \<Rightarrow> Inl FileNotFoundError
      | Some lines \<Rightarrow>
          (case load_lines json_loads fname lines [] of
             Inl e \<Rightarrow> Inl e
           | Inr infos \<Rightarrow>
               Inr \<lparr>data_path = dpath, image_path = ipath, field_name = fname,
                    image_info = infos\<rparr>))"

definition GroundTruthDataset_len :: "GroundTruthDataset \<Rightarrow> nat" where
  "GroundTruthDataset_len ds = length (image_info ds)"

text \<open>
  \<^verbatim>\<open>__getitem__\<close>. The source reference loses its scheme and bucket when its first five
  characters are \<^verbatim>\<open>s3://\<close>. A source reference that is a list passes the comparison and
  fails at \<^verbatim>\<open>split\<close>; any other value that is not a string fails at the slice.
\<close>

definition source_ref_of :: "json \<Rightarrow> error + string" where
  "source_ref_of v =
     (case v of
        JStr s \<Rightarrow> Inr (if take 5 s = ''s3://'' then after_first_slash (drop 5 s) else s)
      | JArr xs \<Rightarrow> Inl AttributeError
      | _ \<Rightarrow> Inl TypeError)"

text \<open>
  One row of the label: \<^verbatim>\<open>[box['left'], box['top'], box['left'] + box['width'],
  box['top'] + box['height'], 0]\<close>, its elements evaluated from left to right.
\<close>

definition box_row :: "(pyfloat \<Rightarrow> pyfloat \<Rightarrow> pyfloat) \<Rightarrow> json \<Rightarrow> error + json list" where
  "box_row fadd box =
     bind_err (py_getitem box ''left'') (\<lambda>l.
     bind_err (py_getitem box ''top'') (\<lambda>t.
     bind_err (py_getitem box ''left'') (\<lambda>l2.
     bind_err (py_getitem box ''width'') (\<lambda>w.
     bind_err (py_add fadd l2 w) (\<lambda>x2.
     bind_err (py_getitem box ''top'') (\<lambda>t2.
     bind_err (py_getitem box ''height'') (\<lambda>h.
     bind_err (py_add fadd t2 h) (\<lambda>y2.
     Inr [l, t, x2, y2, JInt 0]))))))))"

fun label_rows ::
  "(pyfloat \<Rightarrow> pyfloat \<Rightarrow> pyfloat) \<Rightarrow> json list \<Rightarrow> json list list \<Rightarrow> error + json list list"
where
  "label_rows fadd [] label = Inr label"
| "label_rows fadd (box # boxes) label =
     bind_err (box_row fadd box) (\<lambda>row. label_rows fadd boxes (label @ [row]))"

text \<open>
  \<^verbatim>\<open>np.array(label)\<close> on the 64-bit platform of the training container. An array is
  built here where numpy's result is one of two kinds: a nested list of equal, nonempty
  rows whose entries are all integers of the signed 64-bit range becomes an \<^verbatim>\<open>int64\<close>
  array of these integers; one whose entries are integers from \<open>- 2 ^ 63\<close> up to
  \<open>2 ^ 64\<close> and floats, not all of them integers of \<open>2 ^ 63\<close> or more, becomes a
  \<^verbatim>\<open>float64\<close> array, each integer converted to the nearest float. Every other list
  (booleans, strings, nested values, larger integers, rows of unequal length, no row)
  is left to the parameter \<open>other\<close>.
\<close>

datatype 'o ndarray =
    Int64Array "int list list"
  | Float64Array "pyfloat list list"
  | OtherArray 'o

definition in_int64 :: "int \<Rightarrow> bool" where
  "in_int64 i \<longleftrightarrow> - (2 ^ 63) \<le> i \<and> i < 2 ^ 63"

fun is_int64 :: "json \<Rightarrow> bool" where
  "is_int64 (JInt i) = in_int64 i"
| "is_int64 _ = False"

fun is_uint64_only :: "json \<Rightarrow> bool" where
  "is_uint64_only (JInt i) = (2 ^ 63 \<le> i \<and> i < 2 ^ 64)"
| "is_uint64_only _ = False"

fun is_float64_able :: "json \<Rightarrow> bool" where
  "is_float64_able (JInt i) = (- (2 ^ 63) \<le> i \<and> i < 2 ^ 64)"
| "is_float64_able (JFloat x) = True"
| "is_float64_able _ = False"

fun int_of_json :: "json \<Rightarrow> int" where
  "int_of_json (JInt i) = i"
| "int_of_json _ = 0"

fun double_of_json :: "json \<Rightarrow> pyfloat" where
  "double_of_json (JInt i) = Fin (of_int (round_to_double i))"
| "double_of_json (JFloat x) = x"
| "double_of_json _ = NaN"

definition rectangular :: "'a list list \<Rightarrow> bool" where
  "rectangular label \<longleftrightarrow>
     label \<noteq> [] \<and> list_all (\<lambda>r. r \<noteq> [] \<and> length r = length (hd label)) label"

definition np_array ::
  "(json list list \<Rightarrow> error + 'o ndarray) \<Rightarrow> json list list \<Rightarrow> error + 'o ndarray"
where
  "np_array other label =
     (if \<not> rectangular label then other label
      else if list_all (list_all is_int64) label then
        Inr (Int64Array (map (map int_of_json) label))
      else if list_all (list_all is_uint64_only) label then other label
      else if list_all (list_all is_float64_able) label then
        Inr (Float64Array (map (map double_of_json) label))
      else other label)"

text \<open>
  What \<^verbatim>\<open>__getitem__\<close> takes from outside the script: \<^verbatim>\<open>mx.image.imread\<close>, the framework's
  image reader, which may fail; the addition of two floats; and numpy's conversion of
  the lists set aside above.
\<close>

record ('img, 'o) libs =
  imread :: "string \<Rightarrow> error + 'img"
  float_add :: "pyfloat \<Rightarrow> pyfloat \<Rightarrow> pyfloat"
  np_other :: "json list list \<Rightarrow> error + 'o ndarray"

definition GroundTruthDataset_getitem ::
  "('img, 'o) libs \<Rightarrow> GroundTruthDataset \<Rightarrow> int \<Rightarrow> error + ('img \<times> 'o ndarray)"
where
  "GroundTruthDataset_getitem libs ds idx =
     bind_err (py_index (image_info ds) idx) (\<lambda>info.
     bind_err (py_getitem info ''source-ref'') (\<lambda>sr.
     bind_err (source_ref_of sr) (\<lambda>source_ref.
     bind_err (imread libs (path_join (image_path ds) (split_on CHR ''/'' source_ref))) (\<lambda>img.
     bind_err (annotations_of (field_name ds) info) (\<lambda>boxes.
     bind_err (py_iter boxes) (\<lambda>bs.
     bind_err (label_rows (float_add libs) bs []) (\<lambda>label.
     bind_err (np_array (np_other libs) label) (\<lambda>arr.
     Inr (img, arr)))))))))"

subsection \<open>The label format and a two-line manifest\<close>

text \<open>
  A box with the row of its label: the four fields are numbers (integers or floats),
  both sums are defined, and the row is \<^verbatim>\<open>[left, top, left + width, top + height, 0]\<close>.
\<close>

fun is_number :: "json \<Rightarrow> bool" where
  "is_number (JInt i) = True"
| "is_number (JFloat x) = True"
| "is_number _ = False"

definition box_has_row :: "(pyfloat \<Rightarrow> pyfloat \<Rightarrow> pyfloat) \<Rightarrow> json \<Rightarrow> json list \<Rightarrow> bool" where
  "box_has_row fadd box r \<longleftrightarrow>
     (\<exists>l t w h x2 y2.
        py_getitem box ''left'' = Inr l \<and> py_getitem box ''top'' = Inr t \<and>
        py_getitem box ''width'' = Inr w \<and> py_getitem box ''height'' = Inr h \<and>
        is_number l \<and> is_number t \<and> is_number w \<and> is_number h \<and>
        py_add fadd l w = Inr x2 \<and> py_add fadd t h = Inr y2 \<and>
        r = [l, t, x2, y2, JInt 0])"

text \<open>
  The array that holds exactly the values of rows of numbers: of integers when all the
  entries are integers, of floats otherwise, an integer entry by its own value. The
  rows an array can hold exactly: integers of the signed 64-bit range, or numbers
  whose integers are below \<open>2 ^ 53\<close> in magnitude.
\<close>

fun is_int :: "json \<Rightarrow> bool" where
  "is_int (JInt i) = True"
| "is_int _ = False"

fun is_small_number :: "json \<Rightarrow> bool" where
  "is_small_number (JInt i) = (\<bar>i\<bar> < 2 ^ 53)"
| "is_small_number (JFloat x) = True"
| "is_small_number _ = False"

fun value_of_json :: "json \<Rightarrow> pyfloat" where
  "value_of_json (JInt i) = Fin (of_int i)"
| "value_of_json (JFloat x) = x"
| "value_of_json _ = NaN"

definition exact_array :: "json list list \<Rightarrow> 'o ndarray" where
  "exact_array rows =
     (if list_all (list_all is_int) rows then Int64Array (map (map int_of_json) rows)
      else Float64Array (map (map value_of_json) rows))"

definition exactly_held :: "json list list \<Rightarrow> bool" where
  "exactly_held rows \<longleftrightarrow>
     list_all (list_all is_int64) rows \<or> list_all (list_all is_small_number) rows"

text \<open>
  The key of a source reference: what follows \<^verbatim>\<open>s3://<bucket>/\<close> when the reference
  starts with \<^verbatim>\<open>s3://\<close> (nothing when no slash follows the bucket), the reference itself
  otherwise.
\<close>

definition s3_stripped :: "string \<Rightarrow> string \<Rightarrow> bool" where
  "s3_stripped s key \<longleftrightarrow>
     (\<exists>bucket. s = ''s3://'' @ bucket @ ''/'' @ key \<and> CHR ''/'' \<notin> set bucket) \<or>
     (\<exists>bucket. s = ''s3://'' @ bucket \<and> CHR ''/'' \<notin> set bucket \<and> key = []) \<or>
     (take 5 s \<noteq> ''s3://'' \<and> key = s)"

text \<open>
  A manifest of two lines, the second with no annotation, in the directories the
  script reads, and a decoder that knows these two lines.
\<close>

definition manifest_line_a :: string where
  \<open>manifest_line_a =
     ''{"source-ref": "s3://bucket/a.jpg", "labels": {"annotations": '' @
     ''[{"class_id": 0, "width": 30, "top": 20, "height": 40, "left": 10}]}}'' @
     [CHR 0x0A]\<close>

definition manifest_line_b :: string where
  \<open>manifest_line_b =
     ''{"source-ref": "s3://bucket/b.jpg", "labels": {"annotations": []}}'' @ [CHR 0x0A]\<close>

definition manifest_entry_a :: json where
  "manifest_entry_a =
     JObj [(''source-ref'', JStr ''s3://bucket/a.jpg''),
           (''labels'', JObj [(''annotations'',
              JArr [JObj [(''class_id'', JInt 0), (''width'', JInt 30), (''top'', JInt 20),
                          (''height'', JInt 40), (''left'', JInt 10)]])])]"

definition manifest_entry_b :: json where
  "manifest_entry_b =
     JObj [(''source-ref'', JStr ''s3://bucket/b.jpg''),
           (''labels'', JObj [(''annotations'', JArr [])])]"

definition manifest_loads :: "string \<Rightarrow> error + json" where
  "manifest_loads s =
     (if s = butlast manifest_line_a then Inr manifest_entry_a
      else if s = butlast manifest_line_b then Inr manifest_entry_b
      else Inl JSONDecodeError)"

definition manifest_fs :: "string \<rightharpoonup> string list" where
  "manifest_fs =
     [''/opt/ml/input/data/train/train.manifest'' \<mapsto> [manifest_line_a, manifest_line_b]]"

definition manifest_ds :: GroundTruthDataset where
  "manifest_ds =
     \<lparr>data_path = ''/opt/ml/input/data/train'', image_path = ''/opt/ml/input/data/images'',
      field_name = ''labels'', image_info = [manifest_entry_a]\<rparr>"

definition manifest_imread :: "string \<Rightarrow> error + string" where
  "manifest_imread p =
     (if p = ''/opt/ml/input/data/images/a.jpg'' then Inr ''a.jpg'' else Inl ImreadError)"

text \<open>
  For evaluation: the reader above, the sum of two floats where it needs no rounding,
  and a placeholder for the arrays numpy builds from other lists. Two more datasets of
  one entry: one whose box is wider than the signed 64-bit range, one whose box has
  float coordinates.
\<close>

fun unrounded_add :: "pyfloat \<Rightarrow> pyfloat \<Rightarrow> pyfloat" where
  "unrounded_add (Fin x) (Fin y) = Fin (x + y)"
| "unrounded_add NaN b = NaN"
| "unrounded_add a NaN = NaN"
| "unrounded_add PosInf NegInf = NaN"
| "unrounded_add NegInf PosInf = NaN"
| "unrounded_add PosInf b = PosInf"
| "unrounded_add a PosInf = PosInf"
| "unrounded_add NegInf b = NegInf"
| "unrounded_add a NegInf = NegInf"

definition manifest_libs :: "(string, unit) libs" where
  "manifest_libs =
     \<lparr>imread = manifest_imread, float_add = unrounded_add,
      np_other = (\<lambda>label. Inr (OtherArray ()))\<rparr>"

definition wide_ds :: GroundTruthDataset where
  "wide_ds =
     \<lparr>data_path = ''/opt/ml/input/data/train'', image_path = ''/opt/ml/input/data/images'',
      field_name = ''labels'',
      image_info =
        [JObj [(''source-ref'', JStr ''s3://bucket/a.jpg''),
               (''labels'', JObj [(''annotations'',
                  JArr [JObj [(''class_id'', JInt 0), (''width'', JInt 9223372036854775810),
                              (''top'', JInt 20), (''height'', JInt 40),
                              (''left'', JInt 10)]])])]]\<rparr>"

definition float_ds :: GroundTruthDataset where
  "float_ds =
     \<lparr>data_path = ''/opt/ml/input/data/train'', image_path = ''/opt/ml/input/data/images'',
      field_name = ''labels'',
      image_info =
        [JObj [(''source-ref'', JStr ''a.jpg''),
               (''labels'', JObj [(''annotations'',
                  JArr [JObj [(''class_id'', JInt 0), (''width'', JInt 30),
                              (''top'', JInt 20), (''height'', JFloat (Fin (81 / 2))),
                              (''left'', JFloat (Fin (21 / 2)))]])])]]\<rparr>"

section \<open>Floats, the framework and the trace of effects\<close>

text \<open>
  The integer 0 that \<^verbatim>\<open>best_map\<close> starts with is the float \<open>Fin 0\<close>. \<^verbatim>\<open>a > b\<close> is false
  whenever an operand is not-a-number.
\<close>

fun py_gt :: "pyfloat \<Rightarrow> pyfloat \<Rightarrow> bool" where
  "py_gt NaN b = False"
| "py_gt a NaN = False"
| "py_gt NegInf b = False"
| "py_gt a PosInf = False"
| "py_gt PosInf b = True"
| "py_gt a NegInf = True"
| "py_gt (Fin x) (Fin y) = (y < x)"

text \<open>
  What \<^verbatim>\<open>eval_metric.get()\<close> returns: a name with a value, or a list of names with a
  list of values.
\<close>

datatype map_result = MapSingle string pyfloat | MapList "string list" "pyfloat list"

text \<open>
  The framework, as the functions the script calls: \<open>'a\<close> is an array, \<open>'l\<close> a loss
  array with its own addition, \<open>'w\<close> the parameters of the network.
  \<^item> \<open>split_and_load\<close>: \<^verbatim>\<open>gluon.utils.split_and_load(_, ctx_list=ctx, batch_axis=0,
    even_split=False)\<close>, one slice per device;
  \<^item> \<open>shape\<close>: the \<^verbatim>\<open>shape\<close> of an array;
  \<^item> \<open>net_loss\<close>: the network called on a slice, its ground-truth boxes and its five
    fixed targets while recording, the four losses it returns;
  \<^item> \<open>net_detect\<close>: the network called on a slice in validation, the ids, scores and
    boxes it returns;
  \<^item> \<open>trainer_step\<close>: the parameters after \<^verbatim>\<open>autograd.backward\<close> on the summed losses and
    \<^verbatim>\<open>trainer.step(batch_size)\<close>;
  \<^item> \<open>clip\<close>: \<^verbatim>\<open>bboxes.clip(0, n)\<close>; \<open>slice_axis\<close>: \<^verbatim>\<open>y.slice_axis(axis=-1, begin, end)\<close>;
  \<^item> \<open>metric_get\<close>: what the validation metric returns after the updates since its
    last reset;
  \<^item> \<open>fmt_4f\<close>: the format \<^verbatim>\<open>{:.4f}\<close> of a float;
  \<^item> \<open>train_data\<close>, \<open>val_data\<close>: the batches a pass over a loader yields, by epoch.
\<close>

record ('a, 'l, 'w) framework =
  split_and_load :: "'a \<Rightarrow> 'a list"
  shape :: "'a \<Rightarrow> nat list"
  net_loss :: "'w \<Rightarrow> 'a \<Rightarrow> 'a \<Rightarrow> 'a list \<Rightarrow> 'l \<times> 'l \<times> 'l \<times> 'l"
  net_detect :: "'w \<Rightarrow> 'a \<Rightarrow> 'a \<times> 'a \<times> 'a"
  trainer_step :: "'w \<Rightarrow> 'l list \<Rightarrow> nat \<Rightarrow> 'w"
  clip :: "'a \<Rightarrow> nat \<Rightarrow> 'a"
  slice_axis :: "'a \<Rightarrow> nat \<Rightarrow> nat \<Rightarrow> 'a"
  metric_get :: "('a list \<times> 'a list \<times> 'a list \<times> 'a list \<times> 'a list) list \<Rightarrow> map_result"
  fmt_4f :: "pyfloat \<Rightarrow> string"
  train_data :: "int \<Rightarrow> 'a list list"
  val_data :: "int \<Rightarrow> 'a list list"

text \<open>
  The effects of the training loop, in the order they happen. Console and log output
  and the clock are not recorded.
\<close>

datatype ('a, 'l, 'w) event =
    SaveParameters string 'w
  | FileAppend string string
  | SetMixup bool
  | WaitAll
  | Hybridize
  | Backward "'l list"
  | TrainerStep nat
  | LossUpdate string "'l list"
  | MetricReset
  | SetNms rat nat
  | MetricUpdate "'a list" "'a list" "'a list" "'a list" "'a list"

text \<open>
  A run is the effects so far with either the exception that ended it or its result.
\<close>

type_synonym ('r, 'a, 'l, 'w) run = "('a, 'l, 'w) event list \<times> (error + 'r)"

definition run_bind ::
  "('r, 'a, 'l, 'w) run \<Rightarrow> ('r \<Rightarrow> ('s, 'a, 'l, 'w) run) \<Rightarrow> ('s, 'a, 'l, 'w) run"
where
  "run_bind m f =
     (case m of
        (evs, Inl e) \<Rightarrow> (evs, Inl e)
      | (evs, Inr x) \<Rightarrow> (case f x of (evs', r) \<Rightarrow> (evs @ evs', r)))"

definition run_err :: "error + 'r \<Rightarrow> ('r, 'a, 'l, 'w) run" where
  "run_err m = ([], m)"

definition emit :: "('a, 'l, 'w) event list \<Rightarrow> (unit, 'a, 'l, 'w) run" where
  "emit evs = (evs, Inr ())"

fun map_err :: "('x \<Rightarrow> error + 'y) \<Rightarrow> 'x list \<Rightarrow> error + 'y list" where
  "map_err f [] = Inr []"
| "map_err f (x # xs) =
     bind_err (f x) (\<lambda>y. bind_err (map_err f xs) (\<lambda>ys. Inr (y # ys)))"

section \<open>Checkpoints\<close>

text \<open>The format \<^verbatim>\<open>{:04d}\<close> of an integer: at least four characters, zeros after the sign.\<close>

fun digits10 :: "nat \<Rightarrow> string" where
  "digits10 n =
     (if n < 10 then [''0123456789'' ! n]
      else digits10 (n div 10) @ [''0123456789'' ! (n mod 10)])"

definition zero_pad :: "nat \<Rightarrow> string \<Rightarrow> string" where
  "zero_pad w s = replicate (w - length s) CHR ''0'' @ s"

definition format_04d :: "int \<Rightarrow> string" where
  "format_04d n =
     (if n < 0 then CHR ''-'' # zero_pad 3 (digits10 (nat (- n)))
      else zero_pad 4 (digits10 (nat n)))"

text \<open>
  \<^verbatim>\<open>save_params(net, best_map, current_map, epoch, save_interval, prefix)\<close>. The list
  \<^verbatim>\<open>best_map\<close> is shared with the caller: the run returns it as the call leaves it.
\<close>

definition best_params_file :: "string \<Rightarrow> string" where
  "best_params_file prefix = prefix @ ''_best.params''"

definition best_log_file :: "string \<Rightarrow> string" where
  "best_log_file prefix = prefix @ ''_best_map.log''"

definition best_log_line :: "('a, 'l, 'w) framework \<Rightarrow> int \<Rightarrow> pyfloat \<Rightarrow> string" where
  "best_log_line fw epoch current_map =
     format_04d epoch @ '':'' @ [CHR 0x09] @ fmt_4f fw current_map @ [CHR 0x0A]"

definition epoch_params_file ::
  "('a, 'l, 'w) framework \<Rightarrow> string \<Rightarrow> int \<Rightarrow> pyfloat \<Rightarrow> string"
where
  "epoch_params_file fw prefix epoch current_map =
     prefix @ ''_'' @ format_04d epoch @ ''_'' @ fmt_4f fw current_map @ ''.params''"

definition save_params ::
  "('a, 'l, 'w) framework \<Rightarrow> 'w \<Rightarrow> pyfloat list \<Rightarrow> pyfloat \<Rightarrow> int \<Rightarrow> int \<Rightarrow> string \<Rightarrow>
   (pyfloat list, 'a, 'l, 'w) run"
where
  "save_params fw net best_map current_map epoch save_interval prefix =
     run_bind (run_err (py_index best_map 0)) (\<lambda>best.
     run_bind
       (if py_gt current_map best then
          run_bind (emit [SaveParameters (best_params_file prefix) net,
                          FileAppend (best_log_file prefix)
                            (best_log_line fw epoch current_map)])
            (\<lambda>_. ([], Inr (best_map[0 := current_map])))
        else ([], Inr best_map)) (\<lambda>best_map'.
     run_bind
       (if save_interval \<noteq> 0 \<and> epoch mod save_interval = 0 then
          emit [SaveParameters (epoch_params_file fw prefix epoch current_map) net]
        else emit []) (\<lambda>_.
     ([], Inr best_map'))))"

text \<open>
  A sequence of calls on one shared \<^verbatim>\<open>best_map\<close> list, each call with its own network,
  \<^verbatim>\<open>current_map\<close>, epoch, interval and prefix: the list after the last call and the
  effects of each call.
\<close>

fun save_params_seq ::
  "('a, 'l, 'w) framework \<Rightarrow> pyfloat list \<Rightarrow> ('w \<times> pyfloat \<times> int \<times> int \<times> string) list \<Rightarrow>
   error + (pyfloat list \<times> ('a, 'l, 'w) event list list)"
where
  "save_params_seq fw best_map [] = Inr (best_map, [])"
| "save_params_seq fw best_map (c # cs) =
     (case c of (net, current_map, epoch, save_interval, prefix) \<Rightarrow>
        (case save_params fw net best_map current_map epoch save_interval prefix of
           (evs, Inl e) \<Rightarrow> Inl e
         | (evs, Inr best_map') \<Rightarrow>
             bind_err (save_params_seq fw best_map' cs) (\<lambda>(bm, evss). Inr (bm, evs # evss))))"

section \<open>The training loop\<close>

text \<open>
  The parsed arguments, with the fields the modelled functions read.
\<close>

record args =
  network :: string
  data_shape :: int
  batch_size :: int
  num_workers :: int
  num_gpus :: int
  epochs :: int
  resume :: string
  start_epoch :: int
  save_interval :: int
  val_interval :: int
  syncbn :: bool
  no_random_shape :: bool
  mixup :: bool
  no_mixup_epochs :: int
  pretrained :: bool
  model_dir :: string

text \<open>
  One training batch (the body of \<^verbatim>\<open>for i, batch in enumerate(train_data)\<close>). The loop
  over the device slices appends to five lists: the summed loss and the four terms.
\<close>

fun device_losses ::
  "('a, 'l::plus, 'w) framework \<Rightarrow> 'w \<Rightarrow> 'a list \<Rightarrow> 'a list list \<Rightarrow> (nat \<times> 'a) list \<Rightarrow>
   'l list \<times> 'l list \<times> 'l list \<times> 'l list \<times> 'l list \<Rightarrow>
   error + ('l list \<times> 'l list \<times> 'l list \<times> 'l list \<times> 'l list)"
where
  "device_losses fw w gt_boxes fixed_targets [] acc = Inr acc"
| "device_losses fw w gt_boxes fixed_targets ((ix, x) # rest) acc =
     (case acc of (sum_losses, obj_losses, center_losses, scale_losses, cls_losses) \<Rightarrow>
        bind_err (py_index gt_boxes (int ix)) (\<lambda>gt.
        bind_err (map_err (\<lambda>ft. py_index ft (int ix)) fixed_targets) (\<lambda>fts.
          (case net_loss fw w x gt fts of
             (obj_loss, center_loss, scale_loss, cls_loss) \<Rightarrow>
               device_losses fw w gt_boxes fixed_targets rest
                 (sum_losses @ [obj_loss + center_loss + scale_loss + cls_loss],
                  obj_losses @ [obj_loss],
                  center_losses @ [center_loss],
                  scale_losses @ [scale_loss],
                  cls_losses @ [cls_loss])))))"

definition batch_losses ::
  "('a, 'l::plus, 'w) framework \<Rightarrow> 'w \<Rightarrow> 'a list \<Rightarrow>
   error + (nat \<times> 'l list \<times> 'l list \<times> 'l list \<times> 'l list \<times> 'l list)"
where
  "batch_losses fw w batch =
     bind_err (py_index batch 0) (\<lambda>b0.
     bind_err (py_index (shape fw b0) 0) (\<lambda>bsize.
     bind_err (map_err (\<lambda>it. bind_err (py_index batch it) (\<lambda>b. Inr (split_and_load fw b)))
                 [1, 2, 3, 4, 5]) (\<lambda>fixed_targets.
     bind_err (py_index batch 6) (\<lambda>b6.
     bind_err (device_losses fw w (split_and_load fw b6) fixed_targets
                 (enumerate 0 (split_and_load fw b0)) ([], [], [], [], [])) (\<lambda>losses.
     Inr (bsize, losses))))))"

definition train_batch ::
  "('a, 'l::plus, 'w) framework \<Rightarrow> 'w \<Rightarrow> 'a list \<Rightarrow> ('w, 'a, 'l, 'w) run"
where
  "train_batch fw w batch =
     run_bind (run_err (batch_losses fw w batch)) (\<lambda>r.
       (case r of (bsize, sum_losses, obj_losses, center_losses, scale_losses, cls_losses) \<Rightarrow>
          run_bind (emit [Backward sum_losses,
                          TrainerStep bsize,
                          LossUpdate ''ObjLoss'' obj_losses,
                          LossUpdate ''BoxCenterLoss'' center_losses,
                          LossUpdate ''BoxScaleLoss'' scale_losses,
                          LossUpdate ''ClassLoss'' cls_losses]) (\<lambda>_.
          ([], Inr (trainer_step fw w sum_losses bsize)))))"

fun train_batches ::
  "('a, 'l::plus, 'w) framework \<Rightarrow> 'w \<Rightarrow> 'a list list \<Rightarrow> ('w, 'a, 'l, 'w) run"
where
  "train_batches fw w [] = ([], Inr w)"
| "train_batches fw w (batch # rest) =
     run_bind (train_batch fw w batch) (\<lambda>w'. train_batches fw w' rest)"

text \<open>
  \<^verbatim>\<open>validate(net, val_data, ctx, eval_metric)\<close>: the metric is reset, the suppression
  threshold and top-k are set, and each batch updates the metric with the detections
  and ground truths of its slices; the result is what the metric returns.
\<close>

fun detect_slices ::
  "('a, 'l, 'w) framework \<Rightarrow> 'w \<Rightarrow> 'a \<Rightarrow> ('a \<times> 'a) list \<Rightarrow>
   'a list \<times> 'a list \<times> 'a list \<times> 'a list \<times> 'a list \<Rightarrow>
   error + ('a list \<times> 'a list \<times> 'a list \<times> 'a list \<times> 'a list)"
where
  "detect_slices fw w b0 [] acc = Inr acc"
| "detect_slices fw w b0 ((x, y) # rest) acc =
     (case acc of (det_bboxes, det_ids, det_scores, gt_bboxes, gt_ids) \<Rightarrow>
        (case net_detect fw w x of (ids, scores, bboxes) \<Rightarrow>
           bind_err (py_index (shape fw b0) 2) (\<lambda>n.
             detect_slices fw w b0 rest
               (det_bboxes @ [clip fw bboxes n],
                det_ids @ [ids],
                det_scores @ [scores],
                gt_bboxes @ [slice_axis fw y 0 4],
                gt_ids @ [slice_axis fw y 4 5]))))"

definition validate_batch ::
  "('a, 'l, 'w) framework \<Rightarrow> 'w \<Rightarrow> 'a list \<Rightarrow>
   error + ('a list \<times> 'a list \<times> 'a list \<times> 'a list \<times> 'a list)"
where
  "validate_batch fw w batch =
     bind_err (py_index batch 0) (\<lambda>b0.
     bind_err (py_index batch 1) (\<lambda>b1.
       detect_slices fw w b0 (zip (split_and_load fw b0) (split_and_load fw b1))
         ([], [], [], [], [])))"

fun validate_batches ::
  "('a, 'l, 'w) framework \<Rightarrow> 'w \<Rightarrow> 'a list list \<Rightarrow>
   ('a list \<times> 'a list \<times> 'a list \<times> 'a list \<times> 'a list) list \<Rightarrow>
   (('a list \<times> 'a list \<times> 'a list \<times> 'a list \<times> 'a list) list, 'a, 'l, 'w) run"
where
  "validate_batches fw w [] updates = ([], Inr updates)"
| "validate_batches fw w (batch # rest) updates =
     run_bind (run_err (validate_batch fw w batch)) (\<lambda>u.
       (case u of (det_bboxes, det_ids, det_scores, gt_bboxes, gt_ids) \<Rightarrow>
          run_bind (emit [MetricUpdate det_bboxes det_ids det_scores gt_bboxes gt_ids]) (\<lambda>_.
          validate_batches fw w rest (updates @ [u]))))"

definition validate ::
  "('a, 'l, 'w) framework \<Rightarrow> 'w \<Rightarrow> 'a list list \<Rightarrow> (map_result, 'a, 'l, 'w) run"
where
  "validate fw w batches =
     run_bind (emit [MetricReset, SetNms (45 / 100) 400, WaitAll, Hybridize]) (\<lambda>_.
     run_bind (validate_batches fw w batches []) (\<lambda>updates.
     ([], Inr (metric_get fw updates))))"

text \<open>
  The end of an epoch: \<^verbatim>\<open>if not (epoch + 1) % args.val_interval\<close> validates and takes
  \<^verbatim>\<open>current_map\<close> from the metric (the last value of a list, the value itself
  otherwise); the other branch sets \<^verbatim>\<open>current_map = 0.\<close> The remainder by an interval of
  zero raises.
\<close>

fun current_map_of :: "map_result \<Rightarrow> error + pyfloat" where
  "current_map_of (MapList map_name mean_ap) =
     py_index mean_ap (- 1)"
| "current_map_of (MapSingle map_name mean_ap) = Inr mean_ap"

definition epoch_validation ::
  "('a, 'l, 'w) framework \<Rightarrow> args \<Rightarrow> 'w \<Rightarrow> int \<Rightarrow> (pyfloat, 'a, 'l, 'w) run"
where
  "epoch_validation fw a w epoch =
     (if val_interval a = 0 then ([], Inl ZeroDivisionError)
      else if (epoch + 1) mod val_interval a = 0 then
        run_bind (validate fw w (val_data fw epoch)) (\<lambda>res. run_err (current_map_of res))
      else ([], Inr (Fin 0)))"

text \<open>
  With \<^verbatim>\<open>--mixup\<close>, each epoch turns mixing on and, in the last \<^verbatim>\<open>no_mixup_epochs\<close>
  epochs, off again (on the dataset of the loader or, failing that attribute, on the
  dataset it wraps: one \<^verbatim>\<open>set_mixup\<close> call either way).
\<close>

definition mixup_events :: "args \<Rightarrow> int \<Rightarrow> ('a, 'l, 'w) event list" where
  "mixup_events a epoch =
     (if mixup a then
        SetMixup True # (if epoch \<ge> epochs a - no_mixup_epochs a then [SetMixup False] else [])
      else [])"

definition train_epoch ::
  "('a, 'l::plus, 'w) framework \<Rightarrow> args \<Rightarrow> 'w \<times> pyfloat list \<Rightarrow> int \<Rightarrow>
   ('w \<times> pyfloat list, 'a, 'l, 'w) run"
where
  "train_epoch fw a st epoch =
     (case st of (w, best_map) \<Rightarrow>
        run_bind (emit (mixup_events a epoch @ [WaitAll, Hybridize])) (\<lambda>_.
        run_bind (train_batches fw w (train_data fw epoch)) (\<lambda>w'.
        run_bind (epoch_validation fw a w' epoch) (\<lambda>current_map.
        run_bind (save_params fw w' best_map current_map epoch (save_interval a)
                    (path_join (model_dir a) [''yolov3''])) (\<lambda>best_map'.
        ([], Inr (w', best_map')))))))"

fun train_loop ::
  "('a, 'l::plus, 'w) framework \<Rightarrow> args \<Rightarrow> 'w \<times> pyfloat list \<Rightarrow> int list \<Rightarrow>
   ('w \<times> pyfloat list, 'a, 'l, 'w) run"
where
  "train_loop fw a st [] = ([], Inr st)"
| "train_loop fw a st (epoch # rest) =
     run_bind (train_epoch fw a st epoch) (\<lambda>st'. train_loop fw a st' rest)"

text \<open>
  \<^verbatim>\<open>train\<close> from \<^verbatim>\<open>best_map = [0]\<close> on: the epochs \<^verbatim>\<open>range(args.start_epoch, args.epochs)\<close>.
  The set-up above the loop (weight decay, scheduler, trainer, logger) has no part in
  what follows and is left to the framework.
\<close>

definition train ::
  "('a, 'l::plus, 'w) framework \<Rightarrow> args \<Rightarrow> 'w \<Rightarrow> ('w \<times> pyfloat list, 'a, 'l, 'w) run"
where
  "train fw a w = train_loop fw a (w, [Fin 0]) [start_epoch a..epochs a - 1]"

subsection \<open>The running best and the losses of a slice\<close>

text \<open>
  The best value after a sequence of values: each value replaces the best when it is
  greater.
\<close>

definition running_best :: "pyfloat \<Rightarrow> pyfloat list \<Rightarrow> pyfloat" where
  "running_best b0 cms = foldl (\<lambda>b c. if py_gt c b then c else b) b0 cms"

text \<open>
  What the network returns for slice \<open>ix\<close> of a batch: the slice of the images, of the
  ground-truth boxes (component 6) and of each fixed target (components 1 to 5).
\<close>

definition slice_losses ::
  "('a, 'l, 'w) framework \<Rightarrow> 'w \<Rightarrow> 'a list \<Rightarrow> nat \<Rightarrow> 'l \<times> 'l \<times> 'l \<times> 'l"
where
  "slice_losses fw w batch ix =
     net_loss fw w (split_and_load fw (batch ! 0) ! ix) (split_and_load fw (batch ! 6) ! ix)
       (map (\<lambda>it. split_and_load fw (batch ! it) ! ix) [1, 2, 3, 4, 5])"

subsection \<open>A one-device framework and the default arguments\<close>

text \<open>
  A small framework on which the model can be evaluated: arrays are lists of integers,
  a loss is an integer, the parameters are the number of steps taken, there is one
  device, and each pass over a loader yields one batch.
\<close>

definition one_device :: "(int list, int, nat) framework" where
  "one_device =
     \<lparr>split_and_load = (\<lambda>a. [a]),
      shape = (\<lambda>a. [length a, 3, 320, 320]),
      net_loss = (\<lambda>w x gt fts. (1, 2, 3, 4)),
      net_detect = (\<lambda>w x. (x, x, x)),
      trainer_step = (\<lambda>w losses n. Suc w),
      clip = (\<lambda>a n. map (\<lambda>v. max 0 (min v (int n))) a),
      slice_axis = (\<lambda>a b e. take (e - b) (drop b a)),
      metric_get = (\<lambda>updates. MapList [''mAP''] [Fin (1 / 2)]),
      fmt_4f = (\<lambda>f. if f = Fin (1 / 2) then ''0.5000'' else ''0.0000''),
      train_data = (\<lambda>epoch. [[[0, 0], [0, 0], [0, 0], [0, 0], [0, 0], [0, 0], [0, 0]]]),
      val_data = (\<lambda>epoch. [[[0, 0], [1, 2, 3, 4, 0]]])\<rparr>"

text \<open>
  The defaults of \<^verbatim>\<open>parse_args\<close>, with one GPU and the model directory of the training
  container in the environment.
\<close>

definition default_args :: args where
  "default_args =
     \<lparr>network = ''yolo3_darknet53_coco'', data_shape = 320, batch_size = 4,
      num_workers = 0, num_gpus = 1, epochs = 1, resume = [], start_epoch = 0,
      save_interval = 10, val_interval = 1, syncbn = False, no_random_shape = False,
      mixup = False, no_mixup_epochs = 20, pretrained = True,
      model_dir = ''/opt/ml/model''\<rparr>"

section \<open>Data loaders\<close>

text \<open>
  \<^verbatim>\<open>get_dataloader\<close> builds two loaders from framework classes; a loader is the record of
  the arguments it is built with. \<open>'d\<close> is a dataset, \<open>'n\<close> the network the training
  transform generates targets for.
\<close>

datatype 'n transform =
    YOLO3DefaultTrainTransform int int 'n bool
  | YOLO3DefaultValTransform int int

text \<open>\<^verbatim>\<open>Stack()\<close> and \<^verbatim>\<open>Pad(axis, pad_val)\<close>, the axis given or left to its default.\<close>

datatype batchify = Stack | Pad "int option" int

record ('d, 'n) data_loader =
  dl_dataset :: 'd
  dl_transform :: "'n transform"
  dl_batch_size :: int
  dl_shuffle :: bool
  dl_batchify_fn :: "batchify list"
  dl_last_batch :: string
  dl_num_workers :: int

record ('d, 'n) random_transform_loader =
  rt_transform_fns :: "'n transform list"
  rt_dataset :: 'd
  rt_batch_size :: int
  rt_interval :: int
  rt_last_batch :: string
  rt_shuffle :: bool
  rt_batchify_fn :: "batchify list"
  rt_num_workers :: int

datatype ('d, 'n) train_loader =
    DataLoader "('d, 'n) data_loader"
  | RandomTransformDataLoader "('d, 'n) random_transform_loader"

definition get_dataloader ::
  "'n \<Rightarrow> 'd \<Rightarrow> 'd \<Rightarrow> int \<Rightarrow> int \<Rightarrow> int \<Rightarrow> args \<Rightarrow> ('d, 'n) train_loader \<times> ('d, 'n) data_loader"
where
  "get_dataloader net train_dataset val_dataset dshape bsize nworkers a =
     (let width = dshape; height = dshape;
          batchify_fn = replicate 6 Stack @ replicate 1 (Pad (Some 0) (- 1));
          train_loader =
            (if no_random_shape a then
               DataLoader
                 \<lparr>dl_dataset = train_dataset,
                  dl_transform = YOLO3DefaultTrainTransform width height net (mixup a),
                  dl_batch_size = bsize, dl_shuffle = True, dl_batchify_fn = batchify_fn,
                  dl_last_batch = ''discard'', dl_num_workers = nworkers\<rparr>
             else
               RandomTransformDataLoader
                 \<lparr>rt_transform_fns =
                    map (\<lambda>x. YOLO3DefaultTrainTransform (x * 32) (x * 32) net (mixup a))
                      [10..19],
                  rt_dataset = train_dataset, rt_batch_size = bsize, rt_interval = 10,
                  rt_last_batch = ''discard'', rt_shuffle = True,
                  rt_batchify_fn = batchify_fn, rt_num_workers = nworkers\<rparr>);
          val_batchify_fn = [Stack, Pad None (- 1)];
          val_loader =
            \<lparr>dl_dataset = val_dataset,
             dl_transform = YOLO3DefaultValTransform width height,
             dl_batch_size = bsize, dl_shuffle = True, dl_batchify_fn = val_batchify_fn,
             dl_last_batch = ''discard'', dl_num_workers = nworkers\<rparr>
      in (train_loader, val_loader))"

section \<open>The network of a run\<close>

text \<open>
  The main block: the devices, \<^verbatim>\<open>num_sync_bn_devices\<close>, and the calls of \<^verbatim>\<open>get_model\<close>
  that build \<^verbatim>\<open>net\<close> and \<^verbatim>\<open>async_net\<close>. A call is the record of its arguments, a keyword
  that is not passed being \<open>None\<close>; \<^verbatim>\<open>async_net = net\<close> is \<open>None\<close> for the second call.
\<close>

datatype device = Gpu int | Cpu

definition contexts :: "args \<Rightarrow> device list" where
  "contexts a =
     (let ctx = map Gpu [0..num_gpus a - 1] in if ctx \<noteq> [] then ctx else [Cpu])"

definition num_sync_bn_devices :: "args \<Rightarrow> int" where
  "num_sync_bn_devices a = (if syncbn a then int (length (contexts a)) else - 1)"

record get_model_call =
  model_name :: string
  kw_pretrained :: "bool option"
  kw_pretrained_base :: "bool option"
  kw_num_sync_bn_devices :: "int option"

record networks =
  net_call :: get_model_call
  async_net_call :: "get_model_call option"

definition build_networks :: "args \<Rightarrow> networks" where
  "build_networks a =
     (let net_name = network a in
      if num_sync_bn_devices a > 1 then
        \<lparr>net_call =
           (if pretrained a then
              \<lparr>model_name = net_name, kw_pretrained = Some True, kw_pretrained_base = None,
               kw_num_sync_bn_devices = Some (num_sync_bn_devices a)\<rparr>
            else
              \<lparr>model_name = net_name, kw_pretrained = None, kw_pretrained_base = Some True,
               kw_num_sync_bn_devices = Some (num_sync_bn_devices a)\<rparr>),
         async_net_call =
           Some \<lparr>model_name = net_name, kw_pretrained = None,
                 kw_pretrained_base = Some False, kw_num_sync_bn_devices = None\<rparr>\<rparr>
      else
        \<lparr>net_call =
           \<lparr>model_name = net_name, kw_pretrained = Some True, kw_pretrained_base = None,
            kw_num_sync_bn_devices = None\<rparr>,
         async_net_call = None\<rparr>)"

section \<open>Names: the module and its global namespace\<close>

text \<open>
  A name that a statement reads is looked up in the global namespace of the module and
  then among the builtins; a name found in neither raises \<^verbatim>\<open>NameError\<close>. The values
  bound at module level are modules, functions, classes, the parsed arguments (a
  namespace of attributes), loaders and datasets (by the number of items a pass
  yields), networks, metrics, and plain values.
\<close>

datatype pyval =
    Module
  | Function
  | Class
  | Namespace "(string \<times> pyval) list"
  | Loader nat
  | Dataset nat
  | Network
  | Metric
  | PyNone
  | PyBool bool
  | PyInt int
  | PyStr string
  | PyList "pyval list"

type_synonym namespace = "(string \<times> pyval) list"

text \<open>The names of the \<^verbatim>\<open>builtins\<close> module of Python 3.\<close>

definition python_builtins :: "string list" where
  "python_builtins =
     [''abs'', ''all'', ''any'', ''ascii'', ''bin'', ''bool'', ''breakpoint'', ''bytearray'',
      ''bytes'', ''callable'', ''chr'', ''classmethod'', ''compile'', ''complex'',
      ''copyright'', ''credits'', ''delattr'', ''dict'', ''dir'', ''divmod'', ''enumerate'',
      ''eval'', ''exec'', ''exit'', ''filter'', ''float'', ''format'', ''frozenset'',
      ''getattr'', ''globals'', ''hasattr'', ''hash'', ''help'', ''hex'', ''id'', ''input'',
      ''int'', ''isinstance'', ''issubclass'', ''iter'', ''len'', ''license'', ''list'',
      ''locals'', ''map'', ''max'', ''memoryview'', ''min'', ''next'', ''object'', ''oct'',
      ''open'', ''ord'', ''pow'', ''print'', ''property'', ''quit'', ''range'', ''repr'',
      ''reversed'', ''round'', ''set'', ''setattr'', ''slice'', ''sorted'', ''staticmethod'',
      ''str'', ''sum'', ''super'', ''tuple'', ''type'', ''vars'', ''zip'', ''__import__'',
      ''__build_class__'', ''__debug__'', ''__doc__'', ''__loader__'', ''__name__'',
      ''__package__'', ''__spec__'', ''Ellipsis'', ''NotImplemented'',
      ''ArithmeticError'', ''AssertionError'', ''AttributeError'', ''BaseException'',
      ''BlockingIOError'', ''BrokenPipeError'', ''BufferError'', ''BytesWarning'',
      ''ChildProcessError'', ''ConnectionAbortedError'', ''ConnectionError'',
      ''ConnectionRefusedError'', ''ConnectionResetError'', ''DeprecationWarning'',
      ''EOFError'', ''EnvironmentError'', ''Exception'', ''FileExistsError'',
      ''FileNotFoundError'', ''FloatingPointError'', ''FutureWarning'', ''GeneratorExit'',
      ''IOError'', ''ImportError'', ''ImportWarning'', ''IndentationError'', ''IndexError'',
      ''InterruptedError'', ''IsADirectoryError'', ''KeyError'', ''KeyboardInterrupt'',
      ''LookupError'', ''MemoryError'', ''ModuleNotFoundError'', ''NameError'',
      ''NotADirectoryError'', ''NotImplementedError'', ''OSError'', ''OverflowError'',
      ''PendingDeprecationWarning'', ''PermissionError'', ''ProcessLookupError'',
      ''RecursionError'', ''ReferenceError'', ''ResourceWarning'', ''RuntimeError'',
      ''RuntimeWarning'', ''StopAsyncIteration'', ''StopIteration'', ''SyntaxError'',
      ''SyntaxWarning'', ''SystemError'', ''SystemExit'', ''TabError'', ''TimeoutError'',
      ''TypeError'', ''UnboundLocalError'', ''UnicodeDecodeError'', ''UnicodeEncodeError'',
      ''UnicodeError'', ''UnicodeTranslateError'', ''UnicodeWarning'', ''UserWarning'',
      ''ValueError'', ''Warning'', ''ZeroDivisionError'']"

definition load_name :: "namespace \<Rightarrow> string \<Rightarrow> error + pyval" where
  "load_name G n =
     (case map_of G n of
        Some v \<Rightarrow> Inr v
      | None \<Rightarrow> if n \<in> set python_builtins then Inr Function else Inl NameError)"

text \<open>
  A statement at module level: its line, the global names it reads in the order it
  evaluates them, and the names it binds. A call it makes is taken to return.
\<close>

record stmt =
  line :: nat
  reads :: "string list"
  binds :: "(string \<times> pyval) list"

fun load_names :: "namespace \<Rightarrow> string list \<Rightarrow> error + unit" where
  "load_names G [] = Inr ()"
| "load_names G (n # ns) = bind_err (load_name G n) (\<lambda>_. load_names G ns)"

text \<open>
  Running statements in order: the lines that completed, and the exception that
  stopped the run or the namespace at the end. A later binding of a name shadows an
  earlier one.
\<close>

fun exec_stmts :: "namespace \<Rightarrow> stmt list \<Rightarrow> nat list \<times> (error + namespace)" where
  "exec_stmts G [] = ([], Inr G)"
| "exec_stmts G (s # ss) =
     (case load_names G (reads s) of
        Inl e \<Rightarrow> ([], Inl e)
      | Inr _ \<Rightarrow> (case exec_stmts (binds s @ G) ss of (ls, r) \<Rightarrow> (line s # ls, r)))"

text \<open>
  The statements of \<^verbatim>\<open>yolo_train.py\<close> above the main block, by line: the imports of the
  standard library, the call of \<^verbatim>\<open>pip\<close> through \<^verbatim>\<open>subprocess.call([sys.executable, ...])\<close>,
  the imports of the framework, and the definitions.
\<close>

definition import_stmt :: "nat \<Rightarrow> (string \<times> pyval) list \<Rightarrow> stmt" where
  "import_stmt l bs = \<lparr>line = l, reads = [], binds = bs\<rparr>"

definition def_stmt :: "nat \<Rightarrow> string \<Rightarrow> stmt" where
  "def_stmt l f = \<lparr>line = l, reads = [], binds = [(f, Function)]\<rparr>"

definition module_top :: "stmt list" where
  "module_top =
     [import_stmt 6 [(''argparse'', Module)],
      import_stmt 7 [(''json'', Module)],
      import_stmt 8 [(''logging'', Module)],
      import_stmt 9 [(''os'', Module)],
      import_stmt 10 [(''subprocess'', Module)],
      import_stmt 11 [(''time'', Module)],
      import_stmt 12 [(''warnings'', Module)],
      \<lparr>line = 15, reads = [''subprocess'', ''sys''], binds = []\<rparr>,
      import_stmt 18 [(''gcv'', Module)],
      import_stmt 19 [(''gdata'', Module)],
      import_stmt 20 [(''gutils'', Module)],
      import_stmt 21 [(''Tuple'', Class), (''Stack'', Class), (''Pad'', Class)],
      import_stmt 22 [(''RandomTransformDataLoader'', Class)],
      import_stmt 23 [(''YOLO3DefaultTrainTransform'', Class)],
      import_stmt 24 [(''YOLO3DefaultValTransform'', Class)],
      import_stmt 25 [(''get_model'', Function)],
      import_stmt 26 [(''COCODetectionMetric'', Class)],
      import_stmt 27 [(''LRScheduler'', Class), (''LRSequential'', Class)],
      import_stmt 28 [(''VOC07MApMetric'', Class)],
      import_stmt 29 [(''mx'', Module)],
      import_stmt 30 [(''nd'', Module)],
      import_stmt 31 [(''gluon'', Module)],
      import_stmt 32 [(''autograd'', Module)],
      import_stmt 33 [(''np'', Module)],
      def_stmt 36 ''parse_args'',
      \<lparr>line = 116, reads = [''gluon''], binds = [(''GroundTruthDataset'', Class)]\<rparr>,
      def_stmt 170 ''get_dataset'',
      def_stmt 185 ''get_dataloader'',
      def_stmt 206 ''save_params'',
      def_stmt 216 ''validate'',
      def_stmt 247 ''validate_train'',
      def_stmt 279 ''train'']"

text \<open>
  The main block, run when \<^verbatim>\<open>__name__ == '__main__'\<close>: \<open>parsed\<close> is what \<^verbatim>\<open>parse_args()\<close>
  returns, \<open>nt\<close> and \<open>nv\<close> the numbers of batches of the two loaders. The conditionals
  of lines 434 to 453 and 455 to 462 are one statement each, with the names either
  branch reads.
\<close>

definition module_main :: "pyval \<Rightarrow> nat \<Rightarrow> nat \<Rightarrow> stmt list" where
  "module_main parsed nt nv =
     [\<lparr>line = 419, reads = [''parse_args''], binds = [(''args'', parsed)]\<rparr>,
      \<lparr>line = 421, reads = [''gutils'', ''args''], binds = []\<rparr>,
      \<lparr>line = 424, reads = [''range'', ''args'', ''mx'', ''int''],
        binds = [(''ctx'', PyList [])]\<rparr>,
      \<lparr>line = 425, reads = [''ctx'', ''mx''], binds = [(''ctx'', PyList [Module])]\<rparr>,
      \<lparr>line = 428, reads = [''args''], binds = [(''net_name'', PyStr [])]\<rparr>,
      \<lparr>line = 429, reads = [''args'', ''net_name''], binds = []\<rparr>,
      \<lparr>line = 431, reads = [''args'', ''len'', ''ctx''],
        binds = [(''num_sync_bn_devices'', PyInt (- 1))]\<rparr>,
      \<lparr>line = 433, reads = [], binds = [(''net'', PyNone)]\<rparr>,
      \<lparr>line = 434,
        reads = [''num_sync_bn_devices'', ''print'', ''args'', ''get_model'', ''net_name''],
        binds = [(''net'', Network), (''async_net'', Network)]\<rparr>,
      \<lparr>line = 455, reads = [''args'', ''warnings'', ''net'', ''async_net''],
        binds = [(''w'', PyList [])]\<rparr>,
      \<lparr>line = 465, reads = [''get_dataset'', ''args''],
        binds = [(''train_dataset'', Dataset nt), (''val_dataset'', Dataset nv),
                 (''eval_metric'', Metric)]\<rparr>,
      \<lparr>line = 466,
        reads = [''get_dataloader'', ''async_net'', ''train_dataset'', ''val_dataset'', ''args''],
        binds = [(''train_data'', Loader nt), (''val_data'', Loader nv)]\<rparr>,
      \<lparr>line = 470,
        reads = [''train'', ''net'', ''train_data'', ''val_data'', ''eval_metric'', ''ctx'',
                 ''args''],
        binds = []\<rparr>]"

definition yolo_train_module :: "bool \<Rightarrow> pyval \<Rightarrow> nat \<Rightarrow> nat \<Rightarrow> stmt list" where
  "yolo_train_module as_script parsed nt nv =
     module_top @
     \<lparr>line = 418, reads = [''__name__''], binds = []\<rparr> #
     (if as_script then module_main parsed nt nv else [])"

text \<open>The namespace a module starts with.\<close>

definition initial_namespace :: "bool \<Rightarrow> namespace" where
  "initial_namespace as_script =
     [(''__name__'', PyStr (if as_script then ''__main__'' else ''yolo_train'')),
      (''__doc__'', PyStr ''Train YOLOv3 with random shapes.''),
      (''__package__'', PyNone),
      (''__loader__'', Class),
      (''__spec__'', PyNone),
      (''__annotations__'', Namespace []),
      (''__builtins__'', Module),
      (''__file__'', PyStr ''yolo_train.py'')]"

definition run_module :: "bool \<Rightarrow> pyval \<Rightarrow> nat \<Rightarrow> nat \<Rightarrow> nat list \<times> (error + namespace)" where
  "run_module as_script parsed nt nv =
     exec_stmts (initial_namespace as_script) (yolo_train_module as_script parsed nt nv)"



text \<open>
  The destinations of the arguments \<^verbatim>\<open>parse_args\<close> declares: the attributes of the
  namespace it returns.
\<close>

definition parse_args_dests :: "string list" where
  "parse_args_dests =
     [''network'', ''data_shape'', ''batch_size'', ''num_workers'', ''num_gpus'', ''epochs'',
      ''resume'', ''start_epoch'', ''lr'', ''optimizer'', ''lr_mode'', ''lr_decay'',
      ''lr_decay_period'', ''lr_decay_epoch'', ''warmup_lr'', ''warmup_epochs'',
      ''momentum'', ''wd'', ''log_interval'', ''save_prefix'', ''save_interval'',
      ''val_interval'', ''seed'', ''num_samples'', ''syncbn'', ''no_random_shape'', ''no_wd'',
      ''mixup'', ''no_mixup_epochs'', ''pretrained'', ''output_data_dir'', ''model_dir'',
      ''train'', ''test'', ''images'', ''label_smooth'']"

definition parsed_args :: "pyval list \<Rightarrow> pyval" where
  "parsed_args vals = Namespace (zip parse_args_dests vals)"

section \<open>The function validate_train\<close>








section \<open>Properties\<close>

subsection \<open>Sequencing\<close>

lemma bind_err_Inl [simp]: "bind_err (Inl e) f = Inl e"
  by (simp add: bind_err_def)

lemma bind_err_Inr [simp]: "bind_err (Inr x) f = f x"
  by (simp add: bind_err_def)

lemma bind_err_eq_Inr: "bind_err m f = Inr y \<longleftrightarrow> (\<exists>x. m = Inr x \<and> f x = Inr y)"
  by (cases m) simp_all

subsection \<open>The manifest dataset\<close>

lemma manifest_init:
  "GroundTruthDataset_init manifest_fs manifest_loads ''/opt/ml/input/data/train'' ''train''
     ''/opt/ml/input/data/images'' ''labels'' = Inr manifest_ds"
  by (simp add: GroundTruthDataset_init_def manifest_fs_def manifest_loads_def
      manifest_line_a_def manifest_line_b_def manifest_entry_a_def manifest_entry_b_def
      manifest_ds_def path_join_def join_step_def annotations_len_def annotations_of_def)

lemma manifest_loads_a: "manifest_loads (butlast manifest_line_a) = Inr manifest_entry_a"
  by (simp add: manifest_loads_def)

lemma manifest_loads_b: "manifest_loads (butlast manifest_line_b) = Inr manifest_entry_b"
  by (simp add: manifest_loads_def manifest_line_a_def manifest_line_b_def)

lemma load_lines_acc:
  "load_lines jl fn lines acc = Inr out \<Longrightarrow>
   \<exists>infos. map (\<lambda>l. jl (butlast l)) lines = map Inr infos \<and>
     out = acc @ filter (\<lambda>i. annotations_len fn i \<noteq> Inr 0) infos \<and>
     (\<forall>i\<in>set infos. \<exists>n. annotations_len fn i = Inr n)"
proof (induction lines arbitrary: acc)
  case Nil
  then show ?case by simp
next
  case (Cons line rest)
  from Cons.prems obtain info n where
    info: "jl (butlast line) = Inr info" and n: "annotations_len fn info = Inr n"
    and rest: "(if n \<noteq> 0 then load_lines jl fn rest (acc @ [info])
                else load_lines jl fn rest acc) = Inr out"
    by (auto simp: bind_err_eq_Inr)
  show ?case
  proof (cases "n = 0")
    case True
    with rest have "load_lines jl fn rest acc = Inr out" by simp
    from Cons.IH[OF this] obtain infos where
      "map (\<lambda>l. jl (butlast l)) rest = map Inr infos"
      "out = acc @ filter (\<lambda>i. annotations_len fn i \<noteq> Inr 0) infos"
      "\<forall>i\<in>set infos. \<exists>n. annotations_len fn i = Inr n" by blast
    with info n True show ?thesis
      by (intro exI[of _ "info # infos"]) simp
  next
    case False
    with rest have "load_lines jl fn rest (acc @ [info]) = Inr out" by simp
    from Cons.IH[OF this] obtain infos where
      "map (\<lambda>l. jl (butlast l)) rest = map Inr infos"
      "out = (acc @ [info]) @ filter (\<lambda>i. annotations_len fn i \<noteq> Inr 0) infos"
      "\<forall>i\<in>set infos. \<exists>n. annotations_len fn i = Inr n" by blast
    with info n False show ?thesis
      by (intro exI[of _ "info # infos"]) simp
  qed
qed

text \<open>
  C3, as the code has it. The constructor does not keep every decoded line: it keeps,
  in order, exactly the decoded lines whose annotation list has a nonzero length. So
  every stored entry has at least one annotation, and \<^verbatim>\<open>__len__\<close> is the number of such
  lines, at most the number of lines of the manifest.
\<close>

theorem GroundTruthDataset_keeps_annotated:
  assumes "GroundTruthDataset_init fs jl dpath channel ipath fname = Inr ds"
  shows "\<exists>lines infos.
           fs (path_join dpath [channel @ ''.manifest'']) = Some lines \<and>
           map (\<lambda>l. jl (butlast l)) lines = map Inr infos \<and>
           image_info ds = filter (\<lambda>i. annotations_len fname i \<noteq> Inr 0) infos \<and>
           (\<forall>i\<in>set (image_info ds). \<exists>n. annotations_len fname i = Inr (Suc n)) \<and>
           GroundTruthDataset_len ds =
             length (filter (\<lambda>i. annotations_len fname i \<noteq> Inr 0) infos) \<and>
           GroundTruthDataset_len ds \<le> length lines"
proof -
  from assms obtain lines out where
    f: "fs (path_join dpath [channel @ ''.manifest'']) = Some lines"
    and l: "load_lines jl fname lines [] = Inr out"
    and ds: "ds = \<lparr>data_path = dpath, image_path = ipath, field_name = fname,
                    image_info = out\<rparr>"
    by (auto simp: GroundTruthDataset_init_def split: option.splits sum.splits)
  from load_lines_acc[OF l] obtain infos where
    m: "map (\<lambda>l. jl (butlast l)) lines = map Inr infos"
    and o: "out = filter (\<lambda>i. annotations_len fname i \<noteq> Inr 0) infos"
    and a: "\<forall>i\<in>set infos. \<exists>n. annotations_len fname i = Inr n" by auto
  have len: "length infos = length lines" using m by (metis length_map)
  have pos: "\<forall>i\<in>set out. \<exists>n. annotations_len fname i = Inr (Suc n)"
  proof
    fix i assume "i \<in> set out"
    then have "i \<in> set infos" "annotations_len fname i \<noteq> Inr 0" using o by auto
    moreover from this a obtain n where "annotations_len fname i = Inr n" by blast
    ultimately show "\<exists>n. annotations_len fname i = Inr (Suc n)" by (cases n) auto
  qed
  have "length out \<le> length lines" using o len by (metis length_filter_le)
  with f m o pos ds show ?thesis
    by (intro exI[of _ lines] exI[of _ infos]) (simp add: GroundTruthDataset_len_def)
qed

theorem GroundTruthDataset_keeps_annotated_witness:
  "GroundTruthDataset_init manifest_fs manifest_loads ''/opt/ml/input/data/train'' ''train''
     ''/opt/ml/input/data/images'' ''labels'' = Inr manifest_ds \<and>
   GroundTruthDataset_len manifest_ds \<le> 2 \<and>
   image_info manifest_ds = [manifest_entry_a]"
proof -
  note h = manifest_init
  from GroundTruthDataset_keeps_annotated[OF h] obtain lines where
    "manifest_fs (path_join ''/opt/ml/input/data/train'' [''train'' @ ''.manifest''])
       = Some lines"
    and "GroundTruthDataset_len manifest_ds \<le> length lines"
    by blast
  then have "GroundTruthDataset_len manifest_ds \<le> 2"
    by (auto simp: manifest_fs_def path_join_def join_step_def)
  with h show ?thesis by (simp add: manifest_ds_def)
qed

text \<open>
  The claim as the specification words it fails on the two-line manifest: both lines
  decode, one entry is kept, and the length is 1, not 2.
\<close>

theorem GroundTruthDataset_drops_unannotated:
  "GroundTruthDataset_init manifest_fs manifest_loads ''/opt/ml/input/data/train'' ''train''
     ''/opt/ml/input/data/images'' ''labels'' = Inr manifest_ds \<and>
   manifest_fs ''/opt/ml/input/data/train/train.manifest''
     = Some [manifest_line_a, manifest_line_b] \<and>
   manifest_loads (butlast manifest_line_a) = Inr manifest_entry_a \<and>
   manifest_loads (butlast manifest_line_b) = Inr manifest_entry_b \<and>
   image_info manifest_ds \<noteq> [manifest_entry_a, manifest_entry_b] \<and>
   GroundTruthDataset_len manifest_ds = 1 \<and>
   GroundTruthDataset_len manifest_ds \<noteq> length [manifest_line_a, manifest_line_b]"
  using manifest_init manifest_loads_a manifest_loads_b
  by (simp add: manifest_fs_def manifest_ds_def GroundTruthDataset_len_def)

subsection \<open>Items of the dataset\<close>

declare bit_length.simps [simp del]

lemma after_first_slash_bucket:
  "CHR ''/'' \<notin> set bucket \<Longrightarrow> after_first_slash (bucket @ CHR ''/'' # key) = key"
  by (induction bucket) (auto simp: after_first_slash_def)

lemma after_first_slash_none: "CHR ''/'' \<notin> set bucket \<Longrightarrow> after_first_slash bucket = []"
  by (induction bucket) (auto simp: after_first_slash_def)

lemma source_ref_of_stripped: "s3_stripped s key \<Longrightarrow> source_ref_of (JStr s) = Inr key"
  unfolding s3_stripped_def source_ref_of_def
  by (auto simp: after_first_slash_bucket after_first_slash_none)

lemma split_on_nonempty: "split_on c s \<noteq> []"
  by (induction s) (auto split: list.splits)

lemma split_on_no_sep: "p \<in> set (split_on c s) \<Longrightarrow> c \<notin> set p"
proof (induction s arbitrary: p)
  case Nil
  then show ?case by simp
next
  case (Cons x xs)
  show ?case
  proof (cases "x = c")
    case True
    with Cons show ?thesis by auto
  next
    case False
    obtain q qs where q: "split_on c xs = q # qs"
      using split_on_nonempty[of c xs] by (cases "split_on c xs") auto
    with Cons False show ?thesis by auto
  qed
qed

lemma split_on_concat: "concat (map (\<lambda>p. c # p) (split_on c s)) = c # s"
proof (induction s)
  case Nil
  then show ?case by simp
next
  case (Cons x xs)
  obtain q qs where q: "split_on c xs = q # qs"
    using split_on_nonempty[of c xs] by (cases "split_on c xs") auto
  with Cons show ?case by (cases "x = c") auto
qed

lemma path_join_components:
  assumes "a \<noteq> []" and "last a \<noteq> CHR ''/''"
    and "\<forall>p\<in>set ps. CHR ''/'' \<notin> set p" and "\<forall>p\<in>set (butlast ps). p \<noteq> []"
  shows "path_join a ps = a @ concat (map (\<lambda>p. CHR ''/'' # p) ps)"
  using assms
proof (induction ps arbitrary: a)
  case Nil
  then show ?case by (simp add: path_join_def)
next
  case (Cons p ps)
  have p: "take 1 p \<noteq> ''/''" using Cons.prems(3) by (cases p) auto
  have step: "join_step a p = a @ CHR ''/'' # p"
    using Cons.prems(1,2) p by (simp add: join_step_def)
  show ?case
  proof (cases ps)
    case Nil
    then show ?thesis using step by (simp add: path_join_def)
  next
    case (Cons q qs)
    with Cons.prems(4) have "p \<noteq> []" by simp
    moreover from this Cons.prems(3) have "last p \<noteq> CHR ''/''"
      using last_in_set by fastforce
    ultimately have "a @ CHR ''/'' # p \<noteq> []" "last (a @ CHR ''/'' # p) \<noteq> CHR ''/''"
      by simp_all
    moreover have "\<forall>p\<in>set ps. CHR ''/'' \<notin> set p" "\<forall>p\<in>set (butlast ps). p \<noteq> []"
      using Cons.prems(3,4) Cons by auto
    ultimately have "path_join (a @ CHR ''/'' # p) ps
        = (a @ CHR ''/'' # p) @ concat (map (\<lambda>p. CHR ''/'' # p) ps)"
      by (rule Cons.IH)
    then show ?thesis using step by (simp add: path_join_def)
  qed
qed

lemma path_join_key:
  assumes "a \<noteq> []" and "last a \<noteq> CHR ''/''"
    and "\<forall>p\<in>set (butlast (split_on CHR ''/'' key)). p \<noteq> []"
  shows "path_join a (split_on CHR ''/'' key) = a @ ''/'' @ key"
proof -
  have "path_join a (split_on CHR ''/'' key)
          = a @ concat (map (\<lambda>p. CHR ''/'' # p) (split_on CHR ''/'' key))"
    using assms split_on_no_sep[of _ "CHR ''/''" key]
    by (intro path_join_components) auto
  then show ?thesis by (simp add: split_on_concat)
qed

text \<open>Every string source reference has a key.\<close>

lemma s3_stripped_total: "\<exists>key. s3_stripped s key"
proof (cases "take 5 s = ''s3://''")
  case False
  then show ?thesis by (auto simp: s3_stripped_def)
next
  case True
  then have s: "s = ''s3://'' @ drop 5 s" by (metis append_take_drop_id)
  show ?thesis
  proof (cases "CHR ''/'' \<in> set (drop 5 s)")
    case False
    with s show ?thesis unfolding s3_stripped_def by blast
  next
    case True
    then obtain b k where bk: "drop 5 s = b @ CHR ''/'' # k" "CHR ''/'' \<notin> set b"
      by (auto dest: split_list_first)
    with s have "s = ''s3://'' @ b @ ''/'' @ k" by simp
    with bk(2) show ?thesis unfolding s3_stripped_def by blast
  qed
qed

lemma box_row_has_row: "box_has_row fadd box r \<Longrightarrow> box_row fadd box = Inr r"
  by (auto simp: box_has_row_def box_row_def)

lemma box_has_row_length: "box_has_row fadd box r \<Longrightarrow> length r = 5"
  by (auto simp: box_has_row_def)

lemma label_rows_acc:
  "list_all2 (box_has_row fadd) boxes rows \<Longrightarrow>
   label_rows fadd boxes acc = Inr (acc @ rows)"
proof (induction boxes rows arbitrary: acc rule: list_all2_induct)
  case Nil
  then show ?case by simp
next
  case (Cons box r boxes rows)
  then show ?case by (simp add: box_row_has_row)
qed

lemma rows_rectangular:
  assumes "list_all2 (box_has_row fadd) boxes rows" and "boxes \<noteq> []"
  shows "rectangular rows"
proof -
  have len: "\<forall>r\<in>set rows. length r = 5"
    using assms(1) by (induction rule: list_all2_induct) (auto dest: box_has_row_length)
  moreover have "rows \<noteq> []" using assms by (cases rows) auto
  moreover from this len have "length (hd rows) = 5" by (cases rows) auto
  ultimately show ?thesis by (auto simp: rectangular_def list_all_iff)
qed

lemma bit_length_le: "n < 2 ^ k \<Longrightarrow> bit_length n \<le> k"
proof (induction k arbitrary: n)
  case 0
  then show ?case by (simp add: bit_length.simps)
next
  case (Suc k)
  show ?case
  proof (cases "n = 0")
    case True
    then show ?thesis by (simp add: bit_length.simps)
  next
    case False
    from Suc.prems have "n div 2 < 2 ^ k" by simp
    from Suc.IH[OF this] False show ?thesis by (subst bit_length.simps) simp
  qed
qed

lemma round_to_double_small: "\<bar>i\<bar> < 2 ^ 53 \<Longrightarrow> round_to_double i = i"
proof -
  assume "\<bar>i\<bar> < 2 ^ 53"
  then have "nat \<bar>i\<bar> < 2 ^ 53" by (simp add: nat_less_iff)
  then have "bit_length (nat \<bar>i\<bar>) \<le> 53" by (rule bit_length_le)
  then show ?thesis by (simp add: round_to_double_def Let_def)
qed

lemma small_int_is_int64: "is_small_number v \<Longrightarrow> is_int v \<Longrightarrow> is_int64 v"
  by (cases v) (auto simp: in_int64_def)

lemma int64_is_int: "is_int64 v \<Longrightarrow> is_int v"
  by (cases v) auto

lemma uint64_is_int: "is_uint64_only v \<Longrightarrow> is_int v"
  by (cases v) auto

lemma small_is_float64_able: "is_small_number v \<Longrightarrow> is_float64_able v"
  by (cases v) auto

lemma small_double_exact: "is_small_number v \<Longrightarrow> double_of_json v = value_of_json v"
  by (cases v) (auto simp: round_to_double_small)

lemma np_array_exact:
  assumes "rectangular rows" and "exactly_held rows"
  shows "np_array other rows = Inr (exact_array rows)"
proof (cases "list_all (list_all is_int) rows")
  case True
  with assms(2) have "list_all (list_all is_int64) rows"
    unfolding exactly_held_def list_all_iff by (blast intro: small_int_is_int64)
  with True assms(1) show ?thesis by (simp add: np_array_def exact_array_def)
next
  case False
  then have n64: "\<not> list_all (list_all is_int64) rows"
    and nu64: "\<not> list_all (list_all is_uint64_only) rows"
    unfolding list_all_iff by (blast intro: int64_is_int uint64_is_int)+
  with assms(2) have small: "list_all (list_all is_small_number) rows"
    by (simp add: exactly_held_def)
  then have able: "list_all (list_all is_float64_able) rows"
    unfolding list_all_iff by (blast intro: small_is_float64_able)
  have "map (map double_of_json) rows = map (map value_of_json) rows"
    using small unfolding list_all_iff by (auto intro!: map_cong small_double_exact)
  with False n64 nu64 able assms(1) show ?thesis
    by (simp add: np_array_def exact_array_def)
qed

text \<open>
  C2, as the code has it. At a valid index (Python counts a negative index from the
  end), for an entry whose source reference is a string with key \<open>key\<close> and whose
  annotations are a nonempty list of boxes with number fields, \<^verbatim>\<open>__getitem__\<close> returns the
  image read from the image path joined with the components of the key, and the array
  that holds exactly one row \<^verbatim>\<open>[left, top, left + width, top + height, 0]\<close> for each
  annotation, in order, provided the entries of the rows are integers of the signed
  64-bit range or numbers whose integers are below \<open>2 ^ 53\<close> in magnitude. For an image
  path that does not end with a slash and a key without an empty component before its
  last, the file read is the image path, a slash and the key.
\<close>

theorem getitem_image_and_exact_rows:
  assumes "- int (length (image_info ds)) \<le> idx" and "idx < int (length (image_info ds))"
    and "info = image_info ds ! nat (if idx < 0 then idx + int (length (image_info ds)) else idx)"
    and "py_getitem info ''source-ref'' = Inr (JStr s)"
    and "s3_stripped s key"
    and "imread libs (path_join (image_path ds) (split_on CHR ''/'' key)) = Inr img"
    and "annotations_of (field_name ds) info = Inr (JArr boxes)"
    and "boxes \<noteq> []"
    and "list_all2 (box_has_row (float_add libs)) boxes rows"
    and "exactly_held rows"
  shows "GroundTruthDataset_getitem libs ds idx = Inr (img, exact_array rows) \<and>
         (image_path ds \<noteq> [] \<and> last (image_path ds) \<noteq> CHR ''/'' \<and>
          (\<forall>p\<in>set (butlast (split_on CHR ''/'' key)). p \<noteq> [])
            \<longrightarrow> path_join (image_path ds) (split_on CHR ''/'' key)
                  = image_path ds @ ''/'' @ key)"
proof -
  have "py_index (image_info ds) idx = Inr info"
    using assms(1-3) by (simp add: py_index_def Let_def)
  moreover have "source_ref_of (JStr s) = Inr key"
    using assms(5) by (rule source_ref_of_stripped)
  moreover have "label_rows (float_add libs) boxes [] = Inr rows"
    using label_rows_acc[OF assms(9), of "[]"] by simp
  moreover have "np_array (np_other libs) rows = Inr (exact_array rows)"
    using rows_rectangular[OF assms(9,8)] assms(10) by (rule np_array_exact)
  ultimately have "GroundTruthDataset_getitem libs ds idx = Inr (img, exact_array rows)"
    using assms(4,6,7) by (simp add: GroundTruthDataset_getitem_def)
  then show ?thesis using path_join_key[of "image_path ds" key] by blast
qed

theorem getitem_image_and_exact_rows_witness:
  "GroundTruthDataset_getitem manifest_libs manifest_ds (- 1)
     = Inr (''a.jpg'', Int64Array [[10, 20, 40, 60, 0]]) \<and>
   GroundTruthDataset_getitem
     (manifest_libs\<lparr>imread := \<lambda>p. Inr p\<rparr>) float_ds 0
     = Inr (''/opt/ml/input/data/images/a.jpg'',
            Float64Array [[Fin (21 / 2), Fin 20, Fin (81 / 2), Fin (121 / 2), Fin 0]]) \<and>
   last (image_path manifest_ds) \<noteq> CHR ''/'' \<and>
   butlast (split_on CHR ''/'' ''a.jpg'') = [] \<and>
   path_join (image_path manifest_ds) (split_on CHR ''/'' ''a.jpg'')
     = ''/opt/ml/input/data/images/a.jpg''"
proof -
  have s: "s3_stripped ''s3://bucket/a.jpg'' ''a.jpg''"
    unfolding s3_stripped_def by (rule disjI1, rule exI[of _ "''bucket''"]) simp
  have b: "list_all2 (box_has_row (float_add manifest_libs))
             [JObj [(''class_id'', JInt 0), (''width'', JInt 30), (''top'', JInt 20),
                    (''height'', JInt 40), (''left'', JInt 10)]]
             [[JInt 10, JInt 20, JInt 40, JInt 60, JInt 0]]"
    by (simp add: box_has_row_def)
  have h: "exactly_held [[JInt 10, JInt 20, JInt 40, JInt 60, JInt 0]]"
    by (simp add: exactly_held_def in_int64_def)
  have 1: "GroundTruthDataset_getitem manifest_libs manifest_ds (- 1)
          = Inr (''a.jpg'', exact_array [[JInt 10, JInt 20, JInt 40, JInt 60, JInt 0]])"
    by (rule getitem_image_and_exact_rows[where info = manifest_entry_a
          and s = "''s3://bucket/a.jpg''" and key = "''a.jpg''", OF _ _ _ _ s _ _ _ b h,
          THEN conjunct1])
       (simp_all add: manifest_ds_def manifest_entry_a_def manifest_imread_def
          manifest_libs_def path_join_def join_step_def annotations_of_def)
  have s': "s3_stripped ''a.jpg'' ''a.jpg''"
    unfolding s3_stripped_def by simp
  let ?libs = "manifest_libs\<lparr>imread := \<lambda>p. Inr p\<rparr>"
  have f30: "float_of_int 30 = Inr (Fin 30)" and f20: "float_of_int 20 = Inr (Fin 20)"
    by (simp_all add: float_of_int_def round_to_double_small)
  have b': "list_all2 (box_has_row (float_add ?libs))
             [JObj [(''class_id'', JInt 0), (''width'', JInt 30), (''top'', JInt 20),
                    (''height'', JFloat (Fin (81 / 2))), (''left'', JFloat (Fin (21 / 2)))]]
             [[JFloat (Fin (21 / 2)), JInt 20, JFloat (Fin (81 / 2)), JFloat (Fin (121 / 2)),
               JInt 0]]"
    by (simp add: box_has_row_def manifest_libs_def f30 f20)
  have h': "exactly_held [[JFloat (Fin (21 / 2)), JInt 20, JFloat (Fin (81 / 2)),
                           JFloat (Fin (121 / 2)), JInt 0]]"
    by (simp add: exactly_held_def)
  have 2: "GroundTruthDataset_getitem ?libs float_ds 0
          = Inr (''/opt/ml/input/data/images/a.jpg'',
                 exact_array [[JFloat (Fin (21 / 2)), JInt 20, JFloat (Fin (81 / 2)),
                               JFloat (Fin (121 / 2)), JInt 0]])"
    by (rule getitem_image_and_exact_rows[where s = "''a.jpg''" and key = "''a.jpg''"
          and info = "hd (image_info float_ds)", OF _ _ _ _ s' _ _ _ b' h', THEN conjunct1])
       (simp_all add: float_ds_def path_join_def join_step_def annotations_of_def)
  have 3: "last (image_path manifest_ds) \<noteq> CHR ''/''"
    "butlast (split_on CHR ''/'' ''a.jpg'') = []"
    by (simp_all add: manifest_ds_def)
  have "path_join (image_path manifest_ds) (split_on CHR ''/'' ''a.jpg'')
        = image_path manifest_ds @ ''/'' @ ''a.jpg''"
    by (rule getitem_image_and_exact_rows[where info = manifest_entry_a
          and s = "''s3://bucket/a.jpg''" and key = "''a.jpg''" and idx = "- 1"
          and libs = manifest_libs,
          OF _ _ _ _ s _ _ _ b h, THEN conjunct2, rule_format])
       (simp_all add: manifest_ds_def manifest_entry_a_def manifest_imread_def
          manifest_libs_def path_join_def join_step_def annotations_of_def)
  then have 4: "path_join (image_path manifest_ds) (split_on CHR ''/'' ''a.jpg'')
        = ''/opt/ml/input/data/images/a.jpg''"
    by (simp add: manifest_ds_def)
  from 1 2 3 4 show ?thesis by (simp add: exact_array_def)
qed

text \<open>
  The claim as worded, for every entry, fails for a box wider than the signed 64-bit
  range: with \<^verbatim>\<open>left = 10\<close> and \<^verbatim>\<open>width = 9223372036854775810\<close> the row holds
  \<^verbatim>\<open>left + width = 9223372036854775820\<close>, and the array the code returns is a \<^verbatim>\<open>float64\<close>
  array whose third entry is the nearest float, 9223372036854775808.
\<close>

theorem getitem_rounds_wide_box:
  "GroundTruthDataset_getitem manifest_libs wide_ds 0
     = Inr (''a.jpg'',
            Float64Array [[Fin 10, Fin 20, Fin 9223372036854775808, Fin 60, Fin 0]]) \<and>
   label_rows (float_add manifest_libs)
     [JObj [(''class_id'', JInt 0), (''width'', JInt 9223372036854775810),
            (''top'', JInt 20), (''height'', JInt 40), (''left'', JInt 10)]] []
     = Inr [[JInt 10, JInt 20, JInt 9223372036854775820, JInt 60, JInt 0]] \<and>
   (10 :: int) + 9223372036854775810 = 9223372036854775820 \<and>
   Fin 9223372036854775808 \<noteq> Fin 9223372036854775820"
proof -
  have bl: "bit_length 9223372036854775820 = 64"
    by (simp add: bit_length.simps)
  have r: "round_to_double 9223372036854775820 = 9223372036854775808"
    by (simp add: round_to_double_def Let_def bl)
  have small: "round_to_double 10 = 10" "round_to_double 20 = 20" "round_to_double 60 = 60"
    "round_to_double 0 = 0"
    by (simp_all add: round_to_double_small)
  show ?thesis
    by (simp add: GroundTruthDataset_getitem_def wide_ds_def manifest_libs_def
        manifest_imread_def py_index_def source_ref_of_def after_first_slash_def
        path_join_def join_step_def annotations_of_def box_row_def np_array_def
        rectangular_def in_int64_def r small)
qed

subsection \<open>Checkpoints\<close>

declare digits10.simps [simp del]

lemma run_bind_Inl [simp]: "run_bind (evs, Inl e) f = (evs, Inl e)"
  by (simp add: run_bind_def)

lemma run_bind_Inr [simp]: "run_bind (evs, Inr x) f = (evs @ fst (f x), snd (f x))"
  by (simp add: run_bind_def split: prod.splits)

lemma py_index_0_Cons [simp]: "py_index (x # xs) 0 = Inr x"
  by (simp add: py_index_def)

lemma py_index_0_Nil [simp]: "py_index [] 0 = Inl IndexError"
  by (simp add: py_index_def)

lemma digits10_chars: "digits10 n \<noteq> [] \<and> set (digits10 n) \<subseteq> set ''0123456789''"
proof (induction n rule: digits10.induct)
  case (1 n)
  have nth: "\<And>d. d < 10 \<Longrightarrow> ''0123456789'' ! d \<in> set ''0123456789''"
    by (rule nth_mem) simp
  show ?case
  proof (cases "n < 10")
    case True
    then show ?thesis using nth[of n] by (subst (1 2) digits10.simps) simp
  next
    case False
    have "n mod 10 < 10" by simp
    from nth[OF this] 1[OF False] False show ?thesis
      by (subst (1 2) digits10.simps) simp
  qed
qed

lemma format_04d_head: "\<exists>c rest. format_04d n = c # rest \<and> c \<in> set ''-0123456789''"
proof (cases "n < 0")
  case True
  then show ?thesis by (simp add: format_04d_def)
next
  case False
  obtain d ds where d: "digits10 (nat n) = d # ds" using digits10_chars[of "nat n"] by (cases "digits10 (nat n)") auto
  then have "d \<in> set ''0123456789''" using digits10_chars[of "nat n"] by auto
  then have dm: "d \<in> set ''-0123456789''" by auto
  show ?thesis
  proof (cases "4 - length (digits10 (nat n))")
    case 0
    then show ?thesis using False d dm by (simp add: format_04d_def zero_pad_def)
  next
    case (Suc k)
    then show ?thesis using False by (simp add: format_04d_def zero_pad_def)
  qed
qed

lemma best_not_epoch_file: "best_params_file prefix \<noteq> epoch_params_file fw prefix ep cm"
proof
  assume "best_params_file prefix = epoch_params_file fw prefix ep cm"
  then have "''best.params'' = format_04d ep @ ''_'' @ fmt_4f fw cm @ ''.params''"
    by (simp add: best_params_file_def epoch_params_file_def)
  moreover obtain c rest where "format_04d ep = c # rest" "c \<in> set ''-0123456789''"
    using format_04d_head by blast
  ultimately show False by auto
qed

lemma save_params_Cons:
  "save_params fw net (b # bs) cm ep si prefix =
     ((if py_gt cm b then
         [SaveParameters (best_params_file prefix) net,
          FileAppend (best_log_file prefix) (best_log_line fw ep cm)]
       else []) @
      (if si \<noteq> 0 \<and> ep mod si = 0 then
         [SaveParameters (epoch_params_file fw prefix ep cm) net]
       else []),
      Inr ((if py_gt cm b then cm else b) # bs))"
  by (simp add: save_params_def run_err_def emit_def)

lemma format_04d_0: "format_04d 0 = ''0000''"
  by (simp add: format_04d_def zero_pad_def digits10.simps numeral_3_eq_3)

lemma format_04d_1: "format_04d 1 = ''0001''"
  by (simp add: format_04d_def zero_pad_def digits10.simps numeral_3_eq_3)

lemma format_04d_10: "format_04d 10 = ''0010''"
  by (simp add: format_04d_def zero_pad_def digits10.simps numeral_2_eq_2)

text \<open>
  C4. A call with a nonempty \<^verbatim>\<open>best_map\<close> list returns, and of the three effects it can
  have, the epoch checkpoint \<^verbatim>\<open><prefix>_<epoch>_<map>.params\<close> is written exactly when
  \<^verbatim>\<open>save_interval\<close> is nonzero and divides the epoch, the best checkpoint and the line
  appended to \<^verbatim>\<open><prefix>_best_map.log\<close> exactly when \<^verbatim>\<open>current_map > best_map[0]\<close>; the
  call has no other effect.
\<close>

theorem save_params_files:
  "\<exists>evs. save_params fw net (b # bs) cm ep si prefix
            = (evs, Inr ((if py_gt cm b then cm else b) # bs)) \<and>
     (SaveParameters (epoch_params_file fw prefix ep cm) net \<in> set evs
        \<longleftrightarrow> si \<noteq> 0 \<and> ep mod si = 0) \<and>
     (SaveParameters (best_params_file prefix) net \<in> set evs \<longleftrightarrow> py_gt cm b) \<and>
     (FileAppend (best_log_file prefix) (best_log_line fw ep cm) \<in> set evs \<longleftrightarrow> py_gt cm b) \<and>
     set evs \<subseteq> {SaveParameters (epoch_params_file fw prefix ep cm) net,
                 SaveParameters (best_params_file prefix) net,
                 FileAppend (best_log_file prefix) (best_log_line fw ep cm)}"
  using best_not_epoch_file[of prefix fw ep cm]
  by (auto simp: save_params_Cons)

theorem save_params_files_witness:
  "save_params one_device 0 [Fin 0] (Fin (1 / 2)) 10 10 ''/opt/ml/model/yolov3''
     = ([SaveParameters ''/opt/ml/model/yolov3_best.params'' 0,
         FileAppend ''/opt/ml/model/yolov3_best_map.log''
           (''0010:'' @ [CHR 0x09] @ ''0.5000'' @ [CHR 0x0A]),
         SaveParameters ''/opt/ml/model/yolov3_0010_0.5000.params'' 0],
        Inr [Fin (1 / 2)])"
  using save_params_files[of one_device 0 "Fin 0" "[]" "Fin (1 / 2)" 10 10
      "''/opt/ml/model/yolov3''"]
  by (simp add: save_params_Cons best_params_file_def best_log_file_def best_log_line_def
      epoch_params_file_def format_04d_10 one_device_def)

lemma py_gt_irrefl: "\<not> py_gt a a"
  by (cases a) simp_all

lemma py_gt_trans: "py_gt a b \<Longrightarrow> py_gt b c \<Longrightarrow> py_gt a c"
  by (cases a; cases b; cases c) simp_all

lemma py_gt_asym: "py_gt a b \<Longrightarrow> \<not> py_gt b a"
  using py_gt_irrefl py_gt_trans by blast

lemma running_best_snoc:
  "running_best b0 (cms @ [c]) =
     (if py_gt c (running_best b0 cms) then c else running_best b0 cms)"
  by (simp add: running_best_def)

lemma running_best_max:
  "running_best b0 cms \<in> set (b0 # cms) \<and> (\<forall>v\<in>set (b0 # cms). \<not> py_gt v (running_best b0 cms))"
proof (induction cms rule: rev_induct)
  case Nil
  then show ?case by (simp add: running_best_def py_gt_irrefl)
next
  case (snoc c cms)
  show ?case
  proof (cases "py_gt c (running_best b0 cms)")
    case True
    then have r: "running_best b0 (cms @ [c]) = c" by (simp add: running_best_snoc)
    have "\<not> py_gt v c" if "v \<in> set (b0 # cms)" for v
      using snoc that True py_gt_trans by blast
    then show ?thesis using r py_gt_irrefl by auto
  next
    case False
    then have r: "running_best b0 (cms @ [c]) = running_best b0 cms"
      by (simp add: running_best_snoc)
    then show ?thesis using snoc False by auto
  qed
qed

lemma save_params_seq_running:
  "\<exists>evss. save_params_seq fw (b # bs) calls
            = Inr (running_best b (map (\<lambda>c. fst (snd c)) calls) # bs, evss) \<and>
          length evss = length calls"
proof (induction calls arbitrary: b)
  case Nil
  then show ?case by (simp add: running_best_def)
next
  case (Cons c calls)
  obtain net cm ep si prefix where c: "c = (net, cm, ep, si, prefix)" by (cases c) auto
  let ?b = "if py_gt cm b then cm else b"
  from Cons.IH[of ?b] obtain evss where
    "save_params_seq fw (?b # bs) calls
       = Inr (running_best ?b (map (\<lambda>c. fst (snd c)) calls) # bs, evss)"
    "length evss = length calls" by blast
  then show ?case
    by (simp add: c save_params_Cons running_best_def)
qed

lemma save_params_seq_append:
  "save_params_seq fw bm (cs @ ds) =
     bind_err (save_params_seq fw bm cs) (\<lambda>(bm', evss).
     bind_err (save_params_seq fw bm' ds) (\<lambda>(bm'', evss'). Inr (bm'', evss @ evss')))"
proof (induction cs arbitrary: bm)
  case Nil
  then show ?case by (cases "save_params_seq fw bm ds") auto
next
  case (Cons c cs)
  obtain net cm ep si prefix where c: "c = (net, cm, ep, si, prefix)" by (cases c) auto
  obtain evs r where sp: "save_params fw net bm cm ep si prefix = (evs, r)" by force
  show ?case
  proof (cases r)
    case (Inl e)
    with sp c show ?thesis by simp
  next
    case (Inr bm')
    show ?thesis
    proof (cases "save_params_seq fw bm' cs")
      case (Inl e)
      with sp c Inr Cons.IH[of bm'] show ?thesis by simp
    next
      case (Inr p)
      obtain bm2 evss where p: "p = (bm2, evss)" by force
      show ?thesis
        using sp c \<open>r = Inr bm'\<close> Inr p Cons.IH[of bm']
        by (cases "save_params_seq fw bm2 ds") auto
    qed
  qed
qed

text \<open>
  C9. After any sequence of calls on one shared list that starts with \<open>b0\<close>, the first
  element \<open>r\<close> is one of \<open>b0\<close> and the values of \<^verbatim>\<open>current_map\<close> passed so far, and none of
  them is greater than it: it is their maximum. One more call never lowers it, writes
  the best checkpoint exactly when it raises it, and writes none when it passes 0
  against an initial best of 0.
\<close>

theorem best_map_running_maximum:
  "\<exists>r evss.
     save_params_seq fw (b0 # bs) calls = Inr (r # bs, evss) \<and>
     length evss = length calls \<and>
     r \<in> set (b0 # map (\<lambda>c. fst (snd c)) calls) \<and>
     (\<forall>v\<in>set (b0 # map (\<lambda>c. fst (snd c)) calls). \<not> py_gt v r) \<and>
     (\<forall>net cm ep si prefix. \<exists>r' evs.
        save_params_seq fw (b0 # bs) (calls @ [(net, cm, ep, si, prefix)])
          = Inr (r' # bs, evss @ [evs]) \<and>
        \<not> py_gt r r' \<and>
        (SaveParameters (best_params_file prefix) net \<in> set evs \<longleftrightarrow> py_gt r' r) \<and>
        (b0 = Fin 0 \<and> cm = Fin 0 \<longrightarrow> SaveParameters (best_params_file prefix) net \<notin> set evs))"
proof -
  let ?cms = "map (\<lambda>c. fst (snd c)) calls"
  let ?r = "running_best b0 ?cms"
  obtain evss where seq: "save_params_seq fw (b0 # bs) calls = Inr (?r # bs, evss)"
    and len: "length evss = length calls"
    using save_params_seq_running by blast
  have mx: "?r \<in> set (b0 # ?cms)" "\<forall>v\<in>set (b0 # ?cms). \<not> py_gt v ?r"
    using running_best_max[of b0 ?cms] by blast+
  have last: "\<exists>r' evs.
        save_params_seq fw (b0 # bs) (calls @ [(net, cm, ep, si, prefix)])
          = Inr (r' # bs, evss @ [evs]) \<and>
        \<not> py_gt ?r r' \<and>
        (SaveParameters (best_params_file prefix) net \<in> set evs \<longleftrightarrow> py_gt r' ?r) \<and>
        (b0 = Fin 0 \<and> cm = Fin 0 \<longrightarrow> SaveParameters (best_params_file prefix) net \<notin> set evs)"
    for net :: 'c and cm ep si prefix
  proof -
    let ?r' = "if py_gt cm ?r then cm else ?r"
    let ?evs = "fst (save_params fw net (?r # bs) cm ep si prefix) :: ('a, 'b, 'c) event list"
    have 1: "save_params_seq fw (b0 # bs) (calls @ [(net, cm, ep, si, prefix)])
               = Inr (?r' # bs, evss @ [?evs])"
      by (simp add: save_params_seq_append seq save_params_Cons)
    have 2: "\<not> py_gt ?r ?r'" using py_gt_asym py_gt_irrefl by auto
    have 3: "SaveParameters (best_params_file prefix) net \<in> set ?evs \<longleftrightarrow> py_gt cm ?r"
      using best_not_epoch_file[of prefix fw ep cm] by (auto simp: save_params_Cons)
    have 4: "py_gt ?r' ?r \<longleftrightarrow> py_gt cm ?r" using py_gt_irrefl by auto
    have 5: "\<not> py_gt cm ?r" if "b0 = Fin 0" "cm = Fin 0"
      using mx(2) that by auto
    from 1 2 3 4 5 show ?thesis by blast
  qed
  from seq len mx last show ?thesis by blast
qed

theorem best_map_running_maximum_witness:
  "save_params_seq one_device [Fin 0]
     ([(0, Fin 0, 0, 10, ''/opt/ml/model/yolov3'')]
        @ [(1, Fin (1 / 2), 1, 10, ''/opt/ml/model/yolov3'')])
     = Inr ([Fin (1 / 2)],
            [[SaveParameters ''/opt/ml/model/yolov3_0000_0.0000.params'' 0],
             [SaveParameters ''/opt/ml/model/yolov3_best.params'' 1,
              FileAppend ''/opt/ml/model/yolov3_best_map.log''
                (''0001:'' @ [CHR 0x09] @ ''0.5000'' @ [CHR 0x0A])]])"
  using best_map_running_maximum[of one_device "Fin 0" "[]" "[]"]
    best_map_running_maximum[of one_device "Fin 0" "[]"
      "[(0, Fin 0, 0, 10, ''/opt/ml/model/yolov3'')]"]
  by (simp add: save_params_Cons best_params_file_def best_log_file_def best_log_line_def
      epoch_params_file_def format_04d_0 format_04d_1 one_device_def)

subsection \<open>The training batch\<close>

lemma py_index_nonneg:
  "py_index xs i = Inr v \<Longrightarrow> 0 \<le> i \<Longrightarrow> nat i < length xs \<and> v = xs ! nat i"
  by (auto simp: py_index_def Let_def split: if_splits)

lemma py_index_int: "py_index xs (int i) = Inr v \<Longrightarrow> i < length xs \<and> v = xs ! i"
  using py_index_nonneg[of xs "int i" v] by simp

lemma map_err_Inr:
  "map_err f xs = Inr ys \<Longrightarrow> list_all2 (\<lambda>x y. f x = Inr y) xs ys"
proof (induction xs arbitrary: ys)
  case Nil
  then show ?case by simp
next
  case (Cons x xs)
  then show ?case by (auto simp: bind_err_eq_Inr)
qed

lemma map_err_index:
  assumes "map_err (\<lambda>ft. py_index ft (int ix)) fts = Inr vs"
  shows "vs = map (\<lambda>ft. ft ! ix) fts"
proof -
  from map_err_Inr[OF assms]
  have "list_all2 (\<lambda>ft v. v = ft ! ix) fts vs"
    by (rule list_all2_mono) (auto dest: py_index_int)
  then show ?thesis
    by (induction rule: list_all2_induct) auto
qed

lemma device_losses_acc:
  assumes "device_losses fw w gt fts (enumerate k xs) (s, ob, ce, sc, cl) = Inr res"
  shows "res =
     (let outs = map (\<lambda>i. net_loss fw w (xs ! (i - k)) (gt ! i) (map (\<lambda>ft. ft ! i) fts))
                   [k..<k + length xs]
      in (s @ map (\<lambda>(obj, cen, sca, cls). obj + cen + sca + cls) outs,
          ob @ map (\<lambda>(obj, cen, sca, cls). obj) outs,
          ce @ map (\<lambda>(obj, cen, sca, cls). cen) outs,
          sc @ map (\<lambda>(obj, cen, sca, cls). sca) outs,
          cl @ map (\<lambda>(obj, cen, sca, cls). cls) outs))"
  using assms
proof (induction xs arbitrary: k s ob ce sc cl)
  case Nil
  then show ?case by simp
next
  case (Cons x xs)
  from Cons.prems obtain g vs where
    g: "py_index gt (int k) = Inr g" and vs: "map_err (\<lambda>ft. py_index ft (int k)) fts = Inr vs"
    and rest: "(case net_loss fw w x g vs of (obj, cen, sca, cls) \<Rightarrow>
                 device_losses fw w gt fts (enumerate (Suc k) xs)
                   (s @ [obj + cen + sca + cls], ob @ [obj], ce @ [cen], sc @ [sca], cl @ [cls]))
               = Inr res"
    by (auto simp: bind_err_eq_Inr)
  have g': "g = gt ! k" using py_index_int[OF g] by simp
  have vs': "vs = map (\<lambda>ft. ft ! k) fts" using map_err_index[OF vs] .
  obtain obj cen sca cls where n: "net_loss fw w x (gt ! k) (map (\<lambda>ft. ft ! k) fts) = (obj, cen, sca, cls)"
    by (metis prod_cases4)
  from rest n g' vs' have
    "device_losses fw w gt fts (enumerate (Suc k) xs)
       (s @ [obj + cen + sca + cls], ob @ [obj], ce @ [cen], sc @ [sca], cl @ [cls]) = Inr res"
    by simp
  from Cons.IH[OF this] have res: "res =
     (let outs = map (\<lambda>i. net_loss fw w (xs ! (i - Suc k)) (gt ! i) (map (\<lambda>ft. ft ! i) fts))
                   [Suc k..<Suc k + length xs]
      in ((s @ [obj + cen + sca + cls]) @ map (\<lambda>(obj, cen, sca, cls). obj + cen + sca + cls) outs,
          (ob @ [obj]) @ map (\<lambda>(obj, cen, sca, cls). obj) outs,
          (ce @ [cen]) @ map (\<lambda>(obj, cen, sca, cls). cen) outs,
          (sc @ [sca]) @ map (\<lambda>(obj, cen, sca, cls). sca) outs,
          (cl @ [cls]) @ map (\<lambda>(obj, cen, sca, cls). cls) outs))" .
  have up: "[k..<k + length (x # xs)] = k # [Suc k..<Suc k + length xs]"
    using upt_conv_Cons[of k "Suc (k + length xs)"] by simp
  have m: "map (\<lambda>i. net_loss fw w ((x # xs) ! (i - k)) (gt ! i) (map (\<lambda>ft. ft ! i) fts))
             [Suc k..<Suc k + length xs]
         = map (\<lambda>i. net_loss fw w (xs ! (i - Suc k)) (gt ! i) (map (\<lambda>ft. ft ! i) fts))
             [Suc k..<Suc k + length xs]"
  proof (rule map_cong[OF refl])
    fix i assume "i \<in> set [Suc k..<Suc k + length xs]"
    then have "k < i" by (simp only: set_upt atLeastLessThan_iff) arith
    then have "i - k = Suc (i - Suc k)" by arith
    then show "net_loss fw w ((x # xs) ! (i - k)) (gt ! i) (map (\<lambda>ft. ft ! i) fts)
             = net_loss fw w (xs ! (i - Suc k)) (gt ! i) (map (\<lambda>ft. ft ! i) fts)"
      by simp
  qed
  show ?case
    unfolding up res Let_def list.map m
    by (simp add: n)
qed

text \<open>
  C6. For a training batch that completes, with \<open>outs\<close> the four losses the network
  returns for each device slice: the list handed to \<^verbatim>\<open>autograd.backward\<close> holds, for each
  slice, \<^verbatim>\<open>obj_loss + center_loss + scale_loss + cls_loss\<close>, and the metrics \<^verbatim>\<open>ObjLoss\<close>,
  \<^verbatim>\<open>BoxCenterLoss\<close>, \<^verbatim>\<open>BoxScaleLoss\<close> and \<^verbatim>\<open>ClassLoss\<close> are each updated with their own
  term of every slice.
\<close>

theorem train_batch_sums_four_losses:
  assumes "train_batch fw w batch = (evs, Inr w')"
  shows "let outs = map (slice_losses fw w batch) [0..<length (split_and_load fw (batch ! 0))];
             sum_losses = map (\<lambda>(obj_loss, center_loss, scale_loss, cls_loss).
                                  obj_loss + center_loss + scale_loss + cls_loss) outs;
             bsize = shape fw (batch ! 0) ! 0
         in evs = [Backward sum_losses,
                   TrainerStep bsize,
                   LossUpdate ''ObjLoss'' (map (\<lambda>(obj_loss, center_loss, scale_loss, cls_loss). obj_loss) outs),
                   LossUpdate ''BoxCenterLoss'' (map (\<lambda>(obj_loss, center_loss, scale_loss, cls_loss). center_loss) outs),
                   LossUpdate ''BoxScaleLoss'' (map (\<lambda>(obj_loss, center_loss, scale_loss, cls_loss). scale_loss) outs),
                   LossUpdate ''ClassLoss'' (map (\<lambda>(obj_loss, center_loss, scale_loss, cls_loss). cls_loss) outs)] \<and>
            w' = trainer_step fw w sum_losses bsize"
proof -
  from assms obtain r where bl: "batch_losses fw w batch = Inr r"
    by (cases "batch_losses fw w batch") (auto simp: train_batch_def run_err_def)
  obtain bsize s ob ce sc cl where r: "r = (bsize, s, ob, ce, sc, cl)" by (metis prod_cases6)
  from bl obtain b0 fts b6 where
    b0: "py_index batch 0 = Inr b0" and bs: "py_index (shape fw b0) 0 = Inr bsize"
    and fts: "map_err (\<lambda>it. bind_err (py_index batch it) (\<lambda>b. Inr (split_and_load fw b)))
                [1, 2, 3, 4, 5] = Inr fts"
    and b6: "py_index batch 6 = Inr b6"
    and dl: "device_losses fw w (split_and_load fw b6) fts
               (enumerate 0 (split_and_load fw b0)) ([], [], [], [], []) = Inr (s, ob, ce, sc, cl)"
    unfolding batch_losses_def r by (auto simp: bind_err_eq_Inr)
  have b0': "b0 = batch ! 0" using py_index_nonneg[OF b0] by simp
  have bs': "bsize = shape fw (batch ! 0) ! 0" using py_index_nonneg[OF bs] b0' by simp
  have b6': "b6 = batch ! 6" using py_index_nonneg[OF b6] by simp
  have fts': "fts = map (\<lambda>it. split_and_load fw (batch ! it)) [1, 2, 3, 4, 5]"
    using fts by (auto simp: bind_err_eq_Inr dest!: py_index_nonneg)
  have outs: "map (\<lambda>i. net_loss fw w (split_and_load fw b0 ! (i - 0)) (split_and_load fw b6 ! i)
                      (map (\<lambda>ft. ft ! i) fts)) [0..<0 + length (split_and_load fw b0)]
            = map (slice_losses fw w batch) [0..<length (split_and_load fw (batch ! 0))]"
    by (simp add: slice_losses_def b0' b6' fts')
  from device_losses_acc[OF dl] have res: "(s, ob, ce, sc, cl) =
     (let outs = map (slice_losses fw w batch) [0..<length (split_and_load fw (batch ! 0))]
      in (map (\<lambda>(obj, cen, sca, cls). obj + cen + sca + cls) outs,
          map (\<lambda>(obj, cen, sca, cls). obj) outs,
          map (\<lambda>(obj, cen, sca, cls). cen) outs,
          map (\<lambda>(obj, cen, sca, cls). sca) outs,
          map (\<lambda>(obj, cen, sca, cls). cls) outs))"
    unfolding outs by simp
  from assms bl r have "evs = [Backward s, TrainerStep bsize, LossUpdate ''ObjLoss'' ob,
      LossUpdate ''BoxCenterLoss'' ce, LossUpdate ''BoxScaleLoss'' sc, LossUpdate ''ClassLoss'' cl]"
    and "w' = trainer_step fw w s bsize"
    by (auto simp: train_batch_def run_err_def emit_def)
  with res bs' show ?thesis by (simp add: Let_def)
qed

lemma one_device_batch:
  "train_batch one_device 0 [[0, 0], [0, 0], [0, 0], [0, 0], [0, 0], [0, 0], [0, 0]]
     = ([Backward [10], TrainerStep 2, LossUpdate ''ObjLoss'' [1],
         LossUpdate ''BoxCenterLoss'' [2], LossUpdate ''BoxScaleLoss'' [3],
         LossUpdate ''ClassLoss'' [4]], Inr (Suc 0))"
  by (simp add: train_batch_def batch_losses_def run_err_def emit_def py_index_def
      one_device_def enumerate_eq_zip)

theorem train_batch_sums_four_losses_witness:
  "train_batch one_device 0 [[0, 0], [0, 0], [0, 0], [0, 0], [0, 0], [0, 0], [0, 0]]
     = ([Backward [1 + 2 + 3 + 4], TrainerStep 2, LossUpdate ''ObjLoss'' [1],
         LossUpdate ''BoxCenterLoss'' [2], LossUpdate ''BoxScaleLoss'' [3],
         LossUpdate ''ClassLoss'' [4]], Inr (trainer_step one_device 0 [1 + 2 + 3 + 4] 2))"
  using train_batch_sums_four_losses[OF one_device_batch] one_device_batch
  by (simp add: one_device_def)

subsection \<open>Validation at the end of an epoch\<close>





lemma fst_run_bind_pure [simp]: "fst (run_bind m (\<lambda>x. ([], g x))) = fst m"
  by (cases m; cases "snd m") auto











subsection \<open>Data loaders\<close>

lemma random_shapes:
  "map (\<lambda>x. YOLO3DefaultTrainTransform (x * 32) (x * 32) net m) [10..19]
     = map (\<lambda>s. YOLO3DefaultTrainTransform s s net m)
         [320, 352, 384, 416, 448, 480, 512, 544, 576, 608]"
  by (simp add: upto_rec_numeral)

text \<open>
  C8. Without \<^verbatim>\<open>--no-random-shape\<close> the training loader is a
  \<^verbatim>\<open>RandomTransformDataLoader\<close> over exactly ten training transforms, the squares of side
  320, 352, ..., 608 (\<^verbatim>\<open>x * 32\<close> for \<^verbatim>\<open>x\<close> from 10 to 19), with interval 10, shuffling, and
  the last incomplete batch discarded. With it, the training loader is a \<^verbatim>\<open>DataLoader\<close>
  with the one training transform of the data shape. In both cases the validation
  loader has the validation transform of the data shape.
\<close>

theorem get_dataloader_shapes:
  "(\<not> no_random_shape a \<longrightarrow>
      (\<exists>ld. fst (get_dataloader net train_dataset val_dataset dshape bsize nworkers a)
               = RandomTransformDataLoader ld \<and>
            length (rt_transform_fns ld) = 10 \<and>
            rt_transform_fns ld
              = map (\<lambda>s. YOLO3DefaultTrainTransform s s net (mixup a))
                  [320, 352, 384, 416, 448, 480, 512, 544, 576, 608] \<and>
            rt_dataset ld = train_dataset \<and> rt_interval ld = 10 \<and> rt_shuffle ld \<and>
            rt_last_batch ld = ''discard'')) \<and>
   (no_random_shape a \<longrightarrow>
      (\<exists>ld. fst (get_dataloader net train_dataset val_dataset dshape bsize nworkers a)
               = DataLoader ld \<and>
            dl_dataset ld = train_dataset \<and>
            dl_transform ld = YOLO3DefaultTrainTransform dshape dshape net (mixup a))) \<and>
   dl_dataset (snd (get_dataloader net train_dataset val_dataset dshape bsize nworkers a))
     = val_dataset \<and>
   dl_transform (snd (get_dataloader net train_dataset val_dataset dshape bsize nworkers a))
     = YOLO3DefaultValTransform dshape dshape"
  by (simp add: get_dataloader_def Let_def random_shapes)

theorem get_dataloader_shapes_witness:
  "\<not> no_random_shape default_args \<and>
   fst (get_dataloader () ''train'' ''validation'' 320 4 0 default_args)
     = RandomTransformDataLoader
         \<lparr>rt_transform_fns =
            [YOLO3DefaultTrainTransform 320 320 () False,
             YOLO3DefaultTrainTransform 352 352 () False,
             YOLO3DefaultTrainTransform 384 384 () False,
             YOLO3DefaultTrainTransform 416 416 () False,
             YOLO3DefaultTrainTransform 448 448 () False,
             YOLO3DefaultTrainTransform 480 480 () False,
             YOLO3DefaultTrainTransform 512 512 () False,
             YOLO3DefaultTrainTransform 544 544 () False,
             YOLO3DefaultTrainTransform 576 576 () False,
             YOLO3DefaultTrainTransform 608 608 () False],
          rt_dataset = ''train'', rt_batch_size = 4, rt_interval = 10,
          rt_last_batch = ''discard'', rt_shuffle = True,
          rt_batchify_fn = [Stack, Stack, Stack, Stack, Stack, Stack, Pad (Some 0) (- 1)],
          rt_num_workers = 0\<rparr> \<and>
   no_random_shape (default_args\<lparr>no_random_shape := True\<rparr>) \<and>
   fst (get_dataloader () ''train'' ''validation'' 320 4 0
          (default_args\<lparr>no_random_shape := True\<rparr>))
     = DataLoader
         \<lparr>dl_dataset = ''train'',
          dl_transform = YOLO3DefaultTrainTransform 320 320 () False,
          dl_batch_size = 4, dl_shuffle = True,
          dl_batchify_fn = [Stack, Stack, Stack, Stack, Stack, Stack, Pad (Some 0) (- 1)],
          dl_last_batch = ''discard'', dl_num_workers = 0\<rparr>"
  using get_dataloader_shapes[of default_args "()" "''train''" "''validation''" 320 4 0]
    get_dataloader_shapes[of "default_args\<lparr>no_random_shape := True\<rparr>" "()" "''train''"
      "''validation''" 320 4 0]
  by (simp add: get_dataloader_def default_args_def upto_rec_numeral numeral_eq_Suc)

subsection \<open>The network of a run\<close>

text \<open>
  C7. With at most one sync-BN device, \<^verbatim>\<open>net\<close> is \<^verbatim>\<open>get_model(net_name, pretrained=True)\<close>
  whatever \<^verbatim>\<open>args.pretrained\<close> is, and \<^verbatim>\<open>async_net\<close> is the same network. With more than
  one, \<^verbatim>\<open>pretrained=True\<close> is passed exactly when \<^verbatim>\<open>args.pretrained\<close> is true, and
  \<^verbatim>\<open>pretrained_base=True\<close> without \<^verbatim>\<open>pretrained\<close> otherwise.
\<close>

theorem build_networks_pretrained:
  "(num_sync_bn_devices a \<le> 1 \<longrightarrow>
      build_networks a =
        \<lparr>net_call = \<lparr>model_name = network a, kw_pretrained = Some True,
                      kw_pretrained_base = None, kw_num_sync_bn_devices = None\<rparr>,
         async_net_call = None\<rparr> \<and>
      build_networks (a\<lparr>pretrained := p\<rparr>) = build_networks a) \<and>
   (num_sync_bn_devices a > 1 \<longrightarrow>
      (kw_pretrained (net_call (build_networks a)) = Some True \<longleftrightarrow> pretrained a) \<and>
      (pretrained a \<longrightarrow>
         net_call (build_networks a) =
           \<lparr>model_name = network a, kw_pretrained = Some True, kw_pretrained_base = None,
            kw_num_sync_bn_devices = Some (num_sync_bn_devices a)\<rparr>) \<and>
      (\<not> pretrained a \<longrightarrow>
         net_call (build_networks a) =
           \<lparr>model_name = network a, kw_pretrained = None, kw_pretrained_base = Some True,
            kw_num_sync_bn_devices = Some (num_sync_bn_devices a)\<rparr>))"
proof -
  have n: "num_sync_bn_devices (a\<lparr>pretrained := p\<rparr>) = num_sync_bn_devices a"
    by (simp add: num_sync_bn_devices_def contexts_def)
  show ?thesis
    by (auto simp: build_networks_def Let_def n)
qed

lemma two_gpus_syncbn:
  "num_sync_bn_devices (default_args\<lparr>num_gpus := 2, syncbn := True\<rparr>) = 2"
  by (simp add: num_sync_bn_devices_def contexts_def default_args_def upto_rec_numeral
      upto.simps)

lemma default_no_syncbn: "num_sync_bn_devices default_args = - 1"
  by (simp add: num_sync_bn_devices_def default_args_def)

theorem build_networks_pretrained_witness:
  "num_sync_bn_devices default_args \<le> 1 \<and>
   net_call (build_networks (default_args\<lparr>pretrained := False\<rparr>))
     = \<lparr>model_name = ''yolo3_darknet53_coco'', kw_pretrained = Some True,
        kw_pretrained_base = None, kw_num_sync_bn_devices = None\<rparr> \<and>
   num_sync_bn_devices (default_args\<lparr>num_gpus := 2, syncbn := True\<rparr>) > 1 \<and>
   net_call (build_networks (default_args\<lparr>num_gpus := 2, syncbn := True\<rparr>))
     = \<lparr>model_name = ''yolo3_darknet53_coco'', kw_pretrained = Some True,
        kw_pretrained_base = None, kw_num_sync_bn_devices = Some 2\<rparr>"
proof -
  have 1: "num_sync_bn_devices default_args \<le> 1" by (simp add: default_no_syncbn)
  have 2: "num_sync_bn_devices (default_args\<lparr>num_gpus := 2, syncbn := True\<rparr>) > 1"
    by (simp add: two_gpus_syncbn)
  have 3: "pretrained (default_args\<lparr>num_gpus := 2, syncbn := True\<rparr>)"
    by (simp add: default_args_def)
  from build_networks_pretrained[of default_args False] 1
  have 4: "net_call (build_networks (default_args\<lparr>pretrained := False\<rparr>))
     = \<lparr>model_name = ''yolo3_darknet53_coco'', kw_pretrained = Some True,
        kw_pretrained_base = None, kw_num_sync_bn_devices = None\<rparr>"
    by (simp add: default_args_def)
  have nm: "network (default_args\<lparr>num_gpus := 2, syncbn := True\<rparr>) = ''yolo3_darknet53_coco''"
    by (simp add: default_args_def)
  from build_networks_pretrained[of "default_args\<lparr>num_gpus := 2, syncbn := True\<rparr>"] 2 3
  have 5: "net_call (build_networks (default_args\<lparr>num_gpus := 2, syncbn := True\<rparr>))
     = \<lparr>model_name = ''yolo3_darknet53_coco'', kw_pretrained = Some True,
        kw_pretrained_base = None, kw_num_sync_bn_devices = Some 2\<rparr>"
    by (simp add: nm two_gpus_syncbn)
  from 1 2 4 5 show ?thesis by (intro conjI)
qed

subsection \<open>Module initialisation\<close>

lemma sys_not_builtin: "''sys'' \<notin> set python_builtins"
  by (simp add: python_builtins_def)



lemma load_sys_initial: "load_name (bs @ initial_namespace s) ''sys'' = Inl NameError"
  if "''sys'' \<notin> fst ` set bs"
proof -
  have "map_of (bs @ initial_namespace s) ''sys'' = None"
    using that by (simp add: map_of_eq_None_iff initial_namespace_def image_Un)
  then show ?thesis by (simp only: load_name_def option.case sys_not_builtin if_False)
qed

text \<open>
  C1, on the code. However the module is run, line 15 reads \<^verbatim>\<open>sys\<close>, which no earlier
  line binds and which is not a builtin: the run stops with \<^verbatim>\<open>NameError\<close> after lines 6
  to 12, before the framework is imported, so neither \<^verbatim>\<open>parse_args\<close> (line 419) nor
  \<^verbatim>\<open>train\<close> (line 470) is reached.
\<close>

theorem module_init_raises_name_error:
  "run_module as_script parsed nt nv = ([6, 7, 8, 9, 10, 11, 12], Inl NameError)"
proof -
  have sys: "load_name
      ([(''warnings'', Module), (''time'', Module), (''subprocess'', Module), (''os'', Module),
        (''logging'', Module), (''json'', Module), (''argparse'', Module)]
         @ initial_namespace as_script) ''sys'' = Inl NameError"
    by (rule load_sys_initial) simp
  have sub: "load_name
      ([(''warnings'', Module), (''time'', Module), (''subprocess'', Module), (''os'', Module),
        (''logging'', Module), (''json'', Module), (''argparse'', Module)]
         @ initial_namespace as_script) ''subprocess'' = Inr Module"
    by (simp add: load_name_def)
  show ?thesis
    using sys sub
    by (simp add: run_module_def yolo_train_module_def module_top_def import_stmt_def)
qed

subsection \<open>The function validate_train\<close>












end
